theory Spec2Isabelle
  imports Main "HOL-Library.Word"
begin

unbundle bit_operations_syntax

section \<open>Architectural constants and bit-fields\<close>

text \<open>
  The source includes the third-party header \<open>ia32.hpp\<close>, which names the registers,
  bit-fields and encodings of the Intel architecture. The values below are the ones the
  Intel Software Developer's Manual fixes for these names. Registers and VMCS field values
  are 64-bit words, MSR numbers and CPUID registers are 32-bit words.
\<close>

type_synonym u8 = "8 word"
type_synonym u16 = "16 word"
type_synonym u32 = "32 word"
type_synonym u64 = "64 word"

definition CR4_VMX_ENABLE_FLAG :: u64 where
  "CR4_VMX_ENABLE_FLAG = 0x2000"

definition IA32_FEATURE_CONTROL :: u32 where
  "IA32_FEATURE_CONTROL = 0x3A"

definition IA32_VMX_BASIC :: u32 where
  "IA32_VMX_BASIC = 0x480"

definition IA32_VMX_CR0_FIXED0 :: u32 where
  "IA32_VMX_CR0_FIXED0 = 0x486"

definition IA32_VMX_CR0_FIXED1 :: u32 where
  "IA32_VMX_CR0_FIXED1 = 0x487"

definition IA32_VMX_CR4_FIXED0 :: u32 where
  "IA32_VMX_CR4_FIXED0 = 0x488"

definition IA32_VMX_CR4_FIXED1 :: u32 where
  "IA32_VMX_CR4_FIXED1 = 0x489"

definition IA32_DEBUGCTL :: u32 where
  "IA32_DEBUGCTL = 0x1D9"

definition IA32_SYSENTER_CS :: u32 where
  "IA32_SYSENTER_CS = 0x174"

definition IA32_SYSENTER_ESP :: u32 where
  "IA32_SYSENTER_ESP = 0x175"

definition IA32_SYSENTER_EIP :: u32 where
  "IA32_SYSENTER_EIP = 0x176"

definition IA32_FS_BASE :: u32 where
  "IA32_FS_BASE = 0xC0000100"

definition IA32_GS_BASE :: u32 where
  "IA32_GS_BASE = 0xC0000101"

text \<open>The four registers that the CPUID instruction returns.\<close>

record cpuid_regs =
  eax :: u32
  ebx :: u32
  ecx :: u32
  edx :: u32

text \<open>\<open>cpuid_eax_01.cpuid_feature_information_ecx.virtual_machine_extensions\<close>: bit 5 of ECX.\<close>

definition virtual_machine_extensions :: "cpuid_regs \<Rightarrow> bool" where
  "virtual_machine_extensions r = bit (ecx r) 5"

text \<open>\<open>ia32_feature_control_register\<close>: the lock bit is bit 0, VMX outside SMX is bit 2.\<close>

definition lock_bit :: "u64 \<Rightarrow> bool" where
  "lock_bit flags = bit flags 0"

definition enable_vmx_outside_smx :: "u64 \<Rightarrow> bool" where
  "enable_vmx_outside_smx flags = bit flags 2"

text \<open>\<open>ia32_vmx_basic_register.vmcs_revision_id\<close>: the 31-bit field in bits 30:0.\<close>

definition vmcs_revision_id :: "u64 \<Rightarrow> 31 word" where
  "vmcs_revision_id flags = ucast flags"

text \<open>
  The first dword of the VMXON region and of a VMCS region: a 31-bit revision identifier
  and one more bit (reserved in the VMXON region, the shadow-VMCS indicator in a VMCS).
\<close>

record vmxon =
  revision_id :: "31 word"
  must_be_zero :: "1 word"

record vmcs =
  revision_id :: "31 word"
  shadow_vmcs_indicator :: "1 word"

record segment_descriptor_register_64 =
  limit :: u16
  base_address :: u64

text \<open>The selectors loaded in the segment registers of the running environment.\<close>

record segment_registers =
  seg_cs :: u16
  seg_ss :: u16
  seg_ds :: u16
  seg_es :: u16
  seg_fs :: u16
  seg_gs :: u16
  seg_tr :: u16
  seg_ldtr :: u16

text \<open>\<open>invept_type\<close> and \<open>vmx_guest_activity_state\<close>.\<close>

definition invept_all_context :: u64 where
  "invept_all_context = 2"

definition vmx_active :: u64 where
  "vmx_active = 0"

text \<open>
  \<open>segment_selector\<close> is the bit-field \<open>{request_privilege_level : 2, table : 1, index : 13}\<close>;
  \<open>segment_selector_flags\<close> gives the 16-bit value of an aggregate initialiser.
\<close>

definition segment_selector_flags :: "u16 \<Rightarrow> u16 \<Rightarrow> u16 \<Rightarrow> u16" where
  "segment_selector_flags rpl table index =
     (rpl AND 3) OR push_bit 2 (table AND 1) OR push_bit 3 (index AND 0x1FFF)"

subsection \<open>VMCS field encodings\<close>

text \<open>
  A VMCS field is named by its encoding, the first operand of VMREAD and VMWRITE.
\<close>

definition VMCS_CTRL_MSR_BITMAP_ADDRESS :: u64 where
  "VMCS_CTRL_MSR_BITMAP_ADDRESS = 0x2004"

definition VMCS_CTRL_VMEXIT_MSR_STORE_ADDRESS :: u64 where
  "VMCS_CTRL_VMEXIT_MSR_STORE_ADDRESS = 0x2006"

definition VMCS_CTRL_VMEXIT_MSR_LOAD_ADDRESS :: u64 where
  "VMCS_CTRL_VMEXIT_MSR_LOAD_ADDRESS = 0x2008"

definition VMCS_CTRL_VMENTRY_MSR_LOAD_ADDRESS :: u64 where
  "VMCS_CTRL_VMENTRY_MSR_LOAD_ADDRESS = 0x200A"

definition VMCS_CTRL_PIN_BASED_VM_EXECUTION_CONTROLS :: u64 where
  "VMCS_CTRL_PIN_BASED_VM_EXECUTION_CONTROLS = 0x4000"

definition VMCS_CTRL_PROCESSOR_BASED_VM_EXECUTION_CONTROLS :: u64 where
  "VMCS_CTRL_PROCESSOR_BASED_VM_EXECUTION_CONTROLS = 0x4002"

definition VMCS_CTRL_EXCEPTION_BITMAP :: u64 where
  "VMCS_CTRL_EXCEPTION_BITMAP = 0x4004"

definition VMCS_CTRL_PAGEFAULT_ERROR_CODE_MASK :: u64 where
  "VMCS_CTRL_PAGEFAULT_ERROR_CODE_MASK = 0x4006"

definition VMCS_CTRL_PAGEFAULT_ERROR_CODE_MATCH :: u64 where
  "VMCS_CTRL_PAGEFAULT_ERROR_CODE_MATCH = 0x4008"

definition VMCS_CTRL_CR3_TARGET_COUNT :: u64 where
  "VMCS_CTRL_CR3_TARGET_COUNT = 0x400A"

definition VMCS_CTRL_VMEXIT_CONTROLS :: u64 where
  "VMCS_CTRL_VMEXIT_CONTROLS = 0x400C"

definition VMCS_CTRL_VMEXIT_MSR_STORE_COUNT :: u64 where
  "VMCS_CTRL_VMEXIT_MSR_STORE_COUNT = 0x400E"

definition VMCS_CTRL_VMEXIT_MSR_LOAD_COUNT :: u64 where
  "VMCS_CTRL_VMEXIT_MSR_LOAD_COUNT = 0x4010"

definition VMCS_CTRL_VMENTRY_CONTROLS :: u64 where
  "VMCS_CTRL_VMENTRY_CONTROLS = 0x4012"

definition VMCS_CTRL_VMENTRY_MSR_LOAD_COUNT :: u64 where
  "VMCS_CTRL_VMENTRY_MSR_LOAD_COUNT = 0x4014"

definition VMCS_CTRL_VMENTRY_INTERRUPTION_INFORMATION_FIELD :: u64 where
  "VMCS_CTRL_VMENTRY_INTERRUPTION_INFORMATION_FIELD = 0x4016"

definition VMCS_CTRL_VMENTRY_EXCEPTION_ERROR_CODE :: u64 where
  "VMCS_CTRL_VMENTRY_EXCEPTION_ERROR_CODE = 0x4018"

definition VMCS_CTRL_VMENTRY_INSTRUCTION_LENGTH :: u64 where
  "VMCS_CTRL_VMENTRY_INSTRUCTION_LENGTH = 0x401A"

definition VMCS_CTRL_SECONDARY_PROCESSOR_BASED_VM_EXECUTION_CONTROLS :: u64 where
  "VMCS_CTRL_SECONDARY_PROCESSOR_BASED_VM_EXECUTION_CONTROLS = 0x401E"

definition VMCS_CTRL_CR0_GUEST_HOST_MASK :: u64 where
  "VMCS_CTRL_CR0_GUEST_HOST_MASK = 0x6000"

definition VMCS_CTRL_CR4_GUEST_HOST_MASK :: u64 where
  "VMCS_CTRL_CR4_GUEST_HOST_MASK = 0x6002"

definition VMCS_CTRL_CR0_READ_SHADOW :: u64 where
  "VMCS_CTRL_CR0_READ_SHADOW = 0x6004"

definition VMCS_CTRL_CR4_READ_SHADOW :: u64 where
  "VMCS_CTRL_CR4_READ_SHADOW = 0x6006"

definition VMCS_CTRL_CR3_TARGET_VALUE_0 :: u64 where
  "VMCS_CTRL_CR3_TARGET_VALUE_0 = 0x6008"

definition VMCS_CTRL_CR3_TARGET_VALUE_1 :: u64 where
  "VMCS_CTRL_CR3_TARGET_VALUE_1 = 0x600A"

definition VMCS_CTRL_CR3_TARGET_VALUE_2 :: u64 where
  "VMCS_CTRL_CR3_TARGET_VALUE_2 = 0x600C"

definition VMCS_CTRL_CR3_TARGET_VALUE_3 :: u64 where
  "VMCS_CTRL_CR3_TARGET_VALUE_3 = 0x600E"

definition VMCS_VM_INSTRUCTION_ERROR :: u64 where
  "VMCS_VM_INSTRUCTION_ERROR = 0x4400"

definition VMCS_EXIT_REASON :: u64 where
  "VMCS_EXIT_REASON = 0x4402"

definition VMCS_GUEST_ES_SELECTOR :: u64 where
  "VMCS_GUEST_ES_SELECTOR = 0x0800"

definition VMCS_GUEST_CS_SELECTOR :: u64 where
  "VMCS_GUEST_CS_SELECTOR = 0x0802"

definition VMCS_GUEST_SS_SELECTOR :: u64 where
  "VMCS_GUEST_SS_SELECTOR = 0x0804"

definition VMCS_GUEST_DS_SELECTOR :: u64 where
  "VMCS_GUEST_DS_SELECTOR = 0x0806"

definition VMCS_GUEST_FS_SELECTOR :: u64 where
  "VMCS_GUEST_FS_SELECTOR = 0x0808"

definition VMCS_GUEST_GS_SELECTOR :: u64 where
  "VMCS_GUEST_GS_SELECTOR = 0x080A"

definition VMCS_GUEST_LDTR_SELECTOR :: u64 where
  "VMCS_GUEST_LDTR_SELECTOR = 0x080C"

definition VMCS_GUEST_TR_SELECTOR :: u64 where
  "VMCS_GUEST_TR_SELECTOR = 0x080E"

definition VMCS_GUEST_VMCS_LINK_POINTER :: u64 where
  "VMCS_GUEST_VMCS_LINK_POINTER = 0x2800"

definition VMCS_GUEST_DEBUGCTL :: u64 where
  "VMCS_GUEST_DEBUGCTL = 0x2802"

definition VMCS_GUEST_ES_LIMIT :: u64 where
  "VMCS_GUEST_ES_LIMIT = 0x4800"

definition VMCS_GUEST_CS_LIMIT :: u64 where
  "VMCS_GUEST_CS_LIMIT = 0x4802"

definition VMCS_GUEST_SS_LIMIT :: u64 where
  "VMCS_GUEST_SS_LIMIT = 0x4804"

definition VMCS_GUEST_DS_LIMIT :: u64 where
  "VMCS_GUEST_DS_LIMIT = 0x4806"

definition VMCS_GUEST_FS_LIMIT :: u64 where
  "VMCS_GUEST_FS_LIMIT = 0x4808"

definition VMCS_GUEST_GS_LIMIT :: u64 where
  "VMCS_GUEST_GS_LIMIT = 0x480A"

definition VMCS_GUEST_LDTR_LIMIT :: u64 where
  "VMCS_GUEST_LDTR_LIMIT = 0x480C"

definition VMCS_GUEST_TR_LIMIT :: u64 where
  "VMCS_GUEST_TR_LIMIT = 0x480E"

definition VMCS_GUEST_GDTR_LIMIT :: u64 where
  "VMCS_GUEST_GDTR_LIMIT = 0x4810"

definition VMCS_GUEST_IDTR_LIMIT :: u64 where
  "VMCS_GUEST_IDTR_LIMIT = 0x4812"

definition VMCS_GUEST_ES_ACCESS_RIGHTS :: u64 where
  "VMCS_GUEST_ES_ACCESS_RIGHTS = 0x4814"

definition VMCS_GUEST_CS_ACCESS_RIGHTS :: u64 where
  "VMCS_GUEST_CS_ACCESS_RIGHTS = 0x4816"

definition VMCS_GUEST_SS_ACCESS_RIGHTS :: u64 where
  "VMCS_GUEST_SS_ACCESS_RIGHTS = 0x4818"

definition VMCS_GUEST_DS_ACCESS_RIGHTS :: u64 where
  "VMCS_GUEST_DS_ACCESS_RIGHTS = 0x481A"

definition VMCS_GUEST_FS_ACCESS_RIGHTS :: u64 where
  "VMCS_GUEST_FS_ACCESS_RIGHTS = 0x481C"

definition VMCS_GUEST_GS_ACCESS_RIGHTS :: u64 where
  "VMCS_GUEST_GS_ACCESS_RIGHTS = 0x481E"

definition VMCS_GUEST_LDTR_ACCESS_RIGHTS :: u64 where
  "VMCS_GUEST_LDTR_ACCESS_RIGHTS = 0x4820"

definition VMCS_GUEST_TR_ACCESS_RIGHTS :: u64 where
  "VMCS_GUEST_TR_ACCESS_RIGHTS = 0x4822"

definition VMCS_GUEST_INTERRUPTIBILITY_STATE :: u64 where
  "VMCS_GUEST_INTERRUPTIBILITY_STATE = 0x4824"

definition VMCS_GUEST_ACTIVITY_STATE :: u64 where
  "VMCS_GUEST_ACTIVITY_STATE = 0x4826"

definition VMCS_GUEST_SYSENTER_CS :: u64 where
  "VMCS_GUEST_SYSENTER_CS = 0x482A"

definition VMCS_GUEST_CR0 :: u64 where
  "VMCS_GUEST_CR0 = 0x6800"

definition VMCS_GUEST_CR3 :: u64 where
  "VMCS_GUEST_CR3 = 0x6802"

definition VMCS_GUEST_CR4 :: u64 where
  "VMCS_GUEST_CR4 = 0x6804"

definition VMCS_GUEST_ES_BASE :: u64 where
  "VMCS_GUEST_ES_BASE = 0x6806"

definition VMCS_GUEST_CS_BASE :: u64 where
  "VMCS_GUEST_CS_BASE = 0x6808"

definition VMCS_GUEST_SS_BASE :: u64 where
  "VMCS_GUEST_SS_BASE = 0x680A"

definition VMCS_GUEST_DS_BASE :: u64 where
  "VMCS_GUEST_DS_BASE = 0x680C"

definition VMCS_GUEST_FS_BASE :: u64 where
  "VMCS_GUEST_FS_BASE = 0x680E"

definition VMCS_GUEST_GS_BASE :: u64 where
  "VMCS_GUEST_GS_BASE = 0x6810"

definition VMCS_GUEST_LDTR_BASE :: u64 where
  "VMCS_GUEST_LDTR_BASE = 0x6812"

definition VMCS_GUEST_TR_BASE :: u64 where
  "VMCS_GUEST_TR_BASE = 0x6814"

definition VMCS_GUEST_GDTR_BASE :: u64 where
  "VMCS_GUEST_GDTR_BASE = 0x6816"

definition VMCS_GUEST_IDTR_BASE :: u64 where
  "VMCS_GUEST_IDTR_BASE = 0x6818"

definition VMCS_GUEST_DR7 :: u64 where
  "VMCS_GUEST_DR7 = 0x681A"

definition VMCS_GUEST_RSP :: u64 where
  "VMCS_GUEST_RSP = 0x681C"

definition VMCS_GUEST_RIP :: u64 where
  "VMCS_GUEST_RIP = 0x681E"

definition VMCS_GUEST_RFLAGS :: u64 where
  "VMCS_GUEST_RFLAGS = 0x6820"

definition VMCS_GUEST_PENDING_DEBUG_EXCEPTIONS :: u64 where
  "VMCS_GUEST_PENDING_DEBUG_EXCEPTIONS = 0x6822"

definition VMCS_GUEST_SYSENTER_ESP :: u64 where
  "VMCS_GUEST_SYSENTER_ESP = 0x6824"

definition VMCS_GUEST_SYSENTER_EIP :: u64 where
  "VMCS_GUEST_SYSENTER_EIP = 0x6826"

definition VMCS_HOST_ES_SELECTOR :: u64 where
  "VMCS_HOST_ES_SELECTOR = 0x0C00"

definition VMCS_HOST_CS_SELECTOR :: u64 where
  "VMCS_HOST_CS_SELECTOR = 0x0C02"

definition VMCS_HOST_SS_SELECTOR :: u64 where
  "VMCS_HOST_SS_SELECTOR = 0x0C04"

definition VMCS_HOST_DS_SELECTOR :: u64 where
  "VMCS_HOST_DS_SELECTOR = 0x0C06"

definition VMCS_HOST_FS_SELECTOR :: u64 where
  "VMCS_HOST_FS_SELECTOR = 0x0C08"

definition VMCS_HOST_GS_SELECTOR :: u64 where
  "VMCS_HOST_GS_SELECTOR = 0x0C0A"

definition VMCS_HOST_TR_SELECTOR :: u64 where
  "VMCS_HOST_TR_SELECTOR = 0x0C0C"

definition VMCS_HOST_SYSENTER_CS :: u64 where
  "VMCS_HOST_SYSENTER_CS = 0x4C00"

definition VMCS_HOST_CR0 :: u64 where
  "VMCS_HOST_CR0 = 0x6C00"

definition VMCS_HOST_CR3 :: u64 where
  "VMCS_HOST_CR3 = 0x6C02"

definition VMCS_HOST_CR4 :: u64 where
  "VMCS_HOST_CR4 = 0x6C04"

definition VMCS_HOST_FS_BASE :: u64 where
  "VMCS_HOST_FS_BASE = 0x6C06"

definition VMCS_HOST_GS_BASE :: u64 where
  "VMCS_HOST_GS_BASE = 0x6C08"

definition VMCS_HOST_TR_BASE :: u64 where
  "VMCS_HOST_TR_BASE = 0x6C0A"

definition VMCS_HOST_GDTR_BASE :: u64 where
  "VMCS_HOST_GDTR_BASE = 0x6C0C"

definition VMCS_HOST_IDTR_BASE :: u64 where
  "VMCS_HOST_IDTR_BASE = 0x6C0E"

definition VMCS_HOST_SYSENTER_ESP :: u64 where
  "VMCS_HOST_SYSENTER_ESP = 0x6C10"

definition VMCS_HOST_SYSENTER_EIP :: u64 where
  "VMCS_HOST_SYSENTER_EIP = 0x6C12"

definition VMCS_HOST_RSP :: u64 where
  "VMCS_HOST_RSP = 0x6C14"

definition VMCS_HOST_RIP :: u64 where
  "VMCS_HOST_RIP = 0x6C16"

subsection \<open>Constants of vcpu.h\<close>

definition host_cs_selector :: u16 where
  "host_cs_selector = segment_selector_flags 0 0 1"

definition host_tr_selector :: u16 where
  "host_tr_selector = segment_selector_flags 0 0 2"

definition host_gdt_descriptor_count :: nat where
  "host_gdt_descriptor_count = 4"

definition host_idt_descriptor_count :: nat where
  "host_idt_descriptor_count = 256"

definition host_stack_size :: u64 where
  "host_stack_size = 0x6000"

section \<open>The processor and the per-core object\<close>

text \<open>
  Everything the code observes but never changes is collected in \<open>platform\<close>: the CPUID
  leaves and the MSRs (the code reads MSRs and writes none), the build configuration, the
  addresses of the members of the \<open>vcpu\<close> object, the outcome of each VMX instruction
  (decided by the processor), and the helper routines of the repository whose bodies are
  not part of the sources at hand.
\<close>

record platform =
  cpuid_leaf :: "u32 \<Rightarrow> cpuid_regs"
  msr :: "u32 \<Rightarrow> u64"
  dbg :: bool
  ndebug :: bool
  get_physical :: "u64 \<Rightarrow> u64"
  addr_vmxon :: u64
  addr_vmcs :: u64
  addr_msr_bitmap :: u64
  addr_host_stack :: u64
  addr_host_tss :: u64
  addr_host_idt :: u64
  addr_host_gdt :: u64
  addr_vm_exit :: u64
  vmxon_ok :: bool
  vmclear_ok :: bool
  vmptrld_ok :: bool
  vm_launch_ok :: bool
  vm_launch_error :: u64
  vm_launch_rsp :: u64
  vm_launch_rip :: u64
  processor_index :: u64
  prepare_host_idt :: "u64 list \<Rightarrow> u64 list"
  prepare_host_gdt :: "u64 list \<Rightarrow> u64 \<Rightarrow> u64 list"
  ctrl_safe :: "u64 \<Rightarrow> u64 \<Rightarrow> u64"
  segment_base :: "segment_descriptor_register_64 \<Rightarrow> u16 \<Rightarrow> u64"
  segment_access :: "segment_descriptor_register_64 \<Rightarrow> u16 \<Rightarrow> u64"
  segmentlimit :: "u16 \<Rightarrow> u64"

text \<open>
  The privileged instructions the code issues and the diagnostics it prints, in program
  order. VMXON, VMCLEAR and VMPTRLD read the region at the address they are given: the
  event keeps the header of that region as it is in memory when the instruction executes.
\<close>

datatype event =
    Vmxon u64 vmxon
  | Invept u64 "u64 \<times> u64"
  | Vmclear u64 vmcs
  | Vmptrld u64 vmcs
  | Vmxoff
  | Vm_launch
  | Debugbreak
  | DbgPrint string "u64 list"

text \<open>
  The mutable state: the registers of the core, the members of the \<open>vcpu\<close> object
  (\<open>vcpu_vmxon\<close> is the member \<open>vmxon_\<close>, and so on), the fields of the current VMCS
  (by field encoding) and the events so far.
\<close>

record machine =
  cr0 :: u64
  cr3 :: u64
  cr4 :: u64
  dr7 :: u64
  rflags :: u64
  gdtr :: segment_descriptor_register_64
  idtr :: segment_descriptor_register_64
  sregs :: segment_registers
  vmx_operation :: bool
  vcpu_vmxon :: vmxon
  vcpu_vmcs :: vmcs
  vcpu_msr_bitmap :: "u8 list"
  vcpu_host_tss :: "u8 list"
  vcpu_host_idt :: "u64 list"
  vcpu_host_gdt :: "u64 list"
  vmcs_fields :: "u64 \<Rightarrow> u64"
  trace :: "event list"

datatype error = Assertion_failure

subsection \<open>Compiler intrinsics\<close>

definition readmsr :: "platform \<Rightarrow> u32 \<Rightarrow> u64" where
  "readmsr e n = msr e n"

definition readcr0 :: "machine \<Rightarrow> u64" where
  "readcr0 m = cr0 m"

definition readcr3 :: "machine \<Rightarrow> u64" where
  "readcr3 m = cr3 m"

definition readcr4 :: "machine \<Rightarrow> u64" where
  "readcr4 m = cr4 m"

definition writecr0 :: "u64 \<Rightarrow> machine \<Rightarrow> machine" where
  "writecr0 v m = m\<lparr>cr0 := v\<rparr>"

definition writecr4 :: "u64 \<Rightarrow> machine \<Rightarrow> machine" where
  "writecr4 v m = m\<lparr>cr4 := v\<rparr>"

text \<open>\<open>_disable\<close> and \<open>_enable\<close> clear and set the interrupt flag, bit 9 of RFLAGS.\<close>

definition intr_disable :: "machine \<Rightarrow> machine" where
  "intr_disable m = m\<lparr>rflags := unset_bit 9 (rflags m)\<rparr>"

definition intr_enable :: "machine \<Rightarrow> machine" where
  "intr_enable m = m\<lparr>rflags := set_bit 9 (rflags m)\<rparr>"

definition readeflags :: "machine \<Rightarrow> u64" where
  "readeflags m = rflags m"

definition log_event :: "event \<Rightarrow> machine \<Rightarrow> machine" where
  "log_event ev m = m\<lparr>trace := trace m @ [ev]\<rparr>"

definition debugbreak :: "machine \<Rightarrow> machine" where
  "debugbreak m = log_event Debugbreak m"

definition dbg_print :: "string \<Rightarrow> u64 list \<Rightarrow> machine \<Rightarrow> machine" where
  "dbg_print fmt args m = log_event (DbgPrint fmt args) m"

text \<open>The events a run from \<open>m\<close> to \<open>m'\<close> has added.\<close>

definition issued :: "machine \<Rightarrow> machine \<Rightarrow> event list" where
  "issued m m' = drop (length (trace m)) (trace m')"

section \<open>Feature and mode gate\<close>

definition enable_vmx_operation :: "platform \<Rightarrow> machine \<Rightarrow> bool \<times> machine" where
  "enable_vmx_operation e m =
     (let cpuid_1 = cpuid_leaf e 1 in
      if \<not> virtual_machine_extensions cpuid_1 then (False, m)
      else
        let feature_control = readmsr e IA32_FEATURE_CONTROL in
        if \<not> lock_bit feature_control \<or> \<not> enable_vmx_outside_smx feature_control
        then (False, m)
        else
          let m1 = intr_disable m;
              c0 = readcr0 m1;
              c4 = readcr4 m1;
              c4 = c4 OR CR4_VMX_ENABLE_FLAG;
              c0 = c0 OR readmsr e IA32_VMX_CR0_FIXED0;
              c0 = c0 AND readmsr e IA32_VMX_CR0_FIXED1;
              c4 = c4 OR readmsr e IA32_VMX_CR4_FIXED0;
              c4 = c4 AND readmsr e IA32_VMX_CR4_FIXED1;
              m2 = writecr0 c0 m1;
              m3 = writecr4 c4 m2;
              m4 = intr_enable m3
          in (True, m4))"

section \<open>VMX instruction wrappers\<close>

text \<open>
  Modelled from the spec: the wrappers of \<open>util/vmx.h\<close> (\<open>vmx_vmxon\<close>, \<open>vmx_vmclear\<close>,
  \<open>vmx_vmptrld\<close>, \<open>vmx_vmxoff\<close>, \<open>vmx_invept\<close>, \<open>vmx_vmread\<close>, \<open>vmx_vmwrite\<close>) are not
  part of the sources at hand. Each issues its instruction, and the three that can fail
  return the success indicator of the instruction. A field write stores the value under
  the field's encoding and a field read returns what was stored. VMXON that succeeds puts
  the core into VMX operation and VMXOFF takes it out.
\<close>

definition vmx_vmxon :: "platform \<Rightarrow> u64 \<Rightarrow> machine \<Rightarrow> bool \<times> machine" where
  "vmx_vmxon e phys m =
     (let m1 = log_event (Vmxon phys (vcpu_vmxon m)) m
      in if vmxon_ok e then (True, m1\<lparr>vmx_operation := True\<rparr>) else (False, m1))"

definition vmx_invept :: "u64 \<Rightarrow> u64 \<times> u64 \<Rightarrow> machine \<Rightarrow> machine" where
  "vmx_invept ty desc m = log_event (Invept ty desc) m"

definition vmx_vmclear :: "platform \<Rightarrow> u64 \<Rightarrow> machine \<Rightarrow> bool \<times> machine" where
  "vmx_vmclear e phys m = (vmclear_ok e, log_event (Vmclear phys (vcpu_vmcs m)) m)"

definition vmx_vmptrld :: "platform \<Rightarrow> u64 \<Rightarrow> machine \<Rightarrow> bool \<times> machine" where
  "vmx_vmptrld e phys m = (vmptrld_ok e, log_event (Vmptrld phys (vcpu_vmcs m)) m)"

definition vmx_vmxoff :: "machine \<Rightarrow> machine" where
  "vmx_vmxoff m = log_event Vmxoff (m\<lparr>vmx_operation := False\<rparr>)"

definition vmx_vmread :: "u64 \<Rightarrow> machine \<Rightarrow> u64" where
  "vmx_vmread field m = vmcs_fields m field"

definition vmx_vmwrite :: "u64 \<Rightarrow> u64 \<Rightarrow> machine \<Rightarrow> machine" where
  "vmx_vmwrite field v m = m\<lparr>vmcs_fields := (vmcs_fields m)(field := v)\<rparr>"

text \<open>A run of consecutive \<open>vmx_vmwrite\<close> calls, first to last.\<close>

fun vmx_vmwrites :: "(u64 \<times> u64) list \<Rightarrow> machine \<Rightarrow> machine" where
  "vmx_vmwrites [] m = m"
| "vmx_vmwrites ((field, v) # ws) m = vmx_vmwrites ws (vmx_vmwrite field v m)"

text \<open>
  Modelled from the spec: the entry trampoline \<open>__vm_launch\<close> (vm-launch.asm) fills in
  guest RSP and RIP with the resume point, issues the launch instruction and returns its
  success indicator; after a failure the VM-instruction error field holds the error number.
\<close>

definition vm_launch :: "platform \<Rightarrow> machine \<Rightarrow> bool \<times> machine" where
  "vm_launch e m =
     (let m1 = vmx_vmwrite VMCS_GUEST_RSP (vm_launch_rsp e) m;
          m2 = vmx_vmwrite VMCS_GUEST_RIP (vm_launch_rip e) m1;
          m3 = log_event Vm_launch m2
      in if vm_launch_ok e then (True, m3)
         else (False, vmx_vmwrite VMCS_VM_INSTRUCTION_ERROR (vm_launch_error e) m3))"

text \<open>
  \<open>NT_ASSERT\<close> stops the program in a checked build (\<open>dbg\<close>) when its condition is false
  and is compiled out otherwise.
\<close>

definition nt_assert_fails :: "platform \<Rightarrow> bool \<Rightarrow> bool" where
  "nt_assert_fails e cond = (dbg e \<and> \<not> cond)"

section \<open>Root-mode entry and control-structure lifecycle\<close>

definition enter_vmx_operation :: "platform \<Rightarrow> machine \<Rightarrow> error + bool \<times> machine" where
  "enter_vmx_operation e m =
     (let vmx_basic = readmsr e IA32_VMX_BASIC;
          m1 = m\<lparr>vcpu_vmxon := (vcpu_vmxon m)\<lparr>vmxon.revision_id := vmcs_revision_id vmx_basic\<rparr>\<rparr>;
          m2 = m1\<lparr>vcpu_vmxon := (vcpu_vmxon m1)\<lparr>must_be_zero := 0\<rparr>\<rparr>;
          vmxon_phys = get_physical e (addr_vmxon e)
      in if nt_assert_fails e (vmxon_phys mod 0x1000 = 0) then Inl Assertion_failure
         else
           case vmx_vmxon e vmxon_phys m2 of
             (False, m3) \<Rightarrow> Inr (False, m3)
           | (True, m3) \<Rightarrow> Inr (True, vmx_invept invept_all_context (0, 0) m3))"

definition set_vmcs_pointer :: "platform \<Rightarrow> machine \<Rightarrow> error + bool \<times> machine" where
  "set_vmcs_pointer e m =
     (let vmx_basic = readmsr e IA32_VMX_BASIC;
          m1 = m\<lparr>vcpu_vmcs := (vcpu_vmcs m)\<lparr>vmcs.revision_id := vmcs_revision_id vmx_basic\<rparr>\<rparr>;
          m2 = m1\<lparr>vcpu_vmcs := (vcpu_vmcs m1)\<lparr>shadow_vmcs_indicator := 0\<rparr>\<rparr>;
          vmcs_phys = get_physical e (addr_vmcs e)
      in if nt_assert_fails e (vmcs_phys mod 0x1000 = 0) then Inl Assertion_failure
         else
           case vmx_vmclear e vmcs_phys m2 of
             (False, m3) \<Rightarrow> Inr (False, m3)
           | (True, m3) \<Rightarrow>
               (case vmx_vmptrld e vmcs_phys m3 of
                  (False, m4) \<Rightarrow> Inr (False, m4)
                | (True, m4) \<Rightarrow> Inr (True, m4)))"

section \<open>External structure preparation\<close>

text \<open>
  \<open>memset\<close> to zero keeps the size of the object and clears every byte. The two table
  builders (gdt.h, idt.h) are taken from \<open>platform\<close>.
\<close>

definition memset_zero :: "u8 list \<Rightarrow> u8 list" where
  "memset_zero bytes = map (\<lambda>_. 0) bytes"

definition prepare_external_structures :: "platform \<Rightarrow> machine \<Rightarrow> machine" where
  "prepare_external_structures e m =
     (let m1 = m\<lparr>vcpu_msr_bitmap := memset_zero (vcpu_msr_bitmap m)\<rparr>;
          m2 = m1\<lparr>vcpu_host_tss := memset_zero (vcpu_host_tss m1)\<rparr>;
          m3 = m2\<lparr>vcpu_host_idt := prepare_host_idt e (vcpu_host_idt m2)\<rparr>;
          m4 = m3\<lparr>vcpu_host_gdt := prepare_host_gdt e (vcpu_host_gdt m3) (addr_host_tss e)\<rparr>
      in m4)"

section \<open>Field programming\<close>

text \<open>Bit positions of the control bit-fields that the code sets (ia32.hpp).\<close>

definition IA32_VMX_PINBASED_CTLS_NMI_EXITING_BIT :: nat where
  "IA32_VMX_PINBASED_CTLS_NMI_EXITING_BIT = 3"

definition IA32_VMX_PINBASED_CTLS_VIRTUAL_NMI_BIT :: nat where
  "IA32_VMX_PINBASED_CTLS_VIRTUAL_NMI_BIT = 5"

definition IA32_VMX_PROCBASED_CTLS_CR3_LOAD_EXITING_BIT :: nat where
  "IA32_VMX_PROCBASED_CTLS_CR3_LOAD_EXITING_BIT = 15"

definition IA32_VMX_PROCBASED_CTLS_CR3_STORE_EXITING_BIT :: nat where
  "IA32_VMX_PROCBASED_CTLS_CR3_STORE_EXITING_BIT = 16"

definition IA32_VMX_PROCBASED_CTLS_NMI_WINDOW_EXITING_BIT :: nat where
  "IA32_VMX_PROCBASED_CTLS_NMI_WINDOW_EXITING_BIT = 22"

definition IA32_VMX_PROCBASED_CTLS_USE_MSR_BITMAPS_BIT :: nat where
  "IA32_VMX_PROCBASED_CTLS_USE_MSR_BITMAPS_BIT = 28"

definition IA32_VMX_PROCBASED_CTLS_ACTIVATE_SECONDARY_CONTROLS_BIT :: nat where
  "IA32_VMX_PROCBASED_CTLS_ACTIVATE_SECONDARY_CONTROLS_BIT = 31"

definition IA32_VMX_PROCBASED_CTLS2_ENABLE_RDTSCP_BIT :: nat where
  "IA32_VMX_PROCBASED_CTLS2_ENABLE_RDTSCP_BIT = 3"

definition IA32_VMX_PROCBASED_CTLS2_ENABLE_INVPCID_BIT :: nat where
  "IA32_VMX_PROCBASED_CTLS2_ENABLE_INVPCID_BIT = 12"

definition IA32_VMX_PROCBASED_CTLS2_CONCEAL_VMX_FROM_PT_BIT :: nat where
  "IA32_VMX_PROCBASED_CTLS2_CONCEAL_VMX_FROM_PT_BIT = 19"

definition IA32_VMX_PROCBASED_CTLS2_ENABLE_XSAVES_BIT :: nat where
  "IA32_VMX_PROCBASED_CTLS2_ENABLE_XSAVES_BIT = 20"

definition IA32_VMX_PROCBASED_CTLS2_ENABLE_USER_WAIT_PAUSE_BIT :: nat where
  "IA32_VMX_PROCBASED_CTLS2_ENABLE_USER_WAIT_PAUSE_BIT = 26"

definition IA32_VMX_EXIT_CTLS_SAVE_DEBUG_CONTROLS_BIT :: nat where
  "IA32_VMX_EXIT_CTLS_SAVE_DEBUG_CONTROLS_BIT = 2"

definition IA32_VMX_EXIT_CTLS_HOST_ADDRESS_SPACE_SIZE_BIT :: nat where
  "IA32_VMX_EXIT_CTLS_HOST_ADDRESS_SPACE_SIZE_BIT = 9"

definition IA32_VMX_EXIT_CTLS_CONCEAL_VMX_FROM_PT_BIT :: nat where
  "IA32_VMX_EXIT_CTLS_CONCEAL_VMX_FROM_PT_BIT = 24"

definition IA32_VMX_ENTRY_CTLS_LOAD_DEBUG_CONTROLS_BIT :: nat where
  "IA32_VMX_ENTRY_CTLS_LOAD_DEBUG_CONTROLS_BIT = 2"

definition IA32_VMX_ENTRY_CTLS_IA32E_MODE_GUEST_BIT :: nat where
  "IA32_VMX_ENTRY_CTLS_IA32E_MODE_GUEST_BIT = 9"

definition IA32_VMX_ENTRY_CTLS_CONCEAL_VMX_FROM_PT_BIT :: nat where
  "IA32_VMX_ENTRY_CTLS_CONCEAL_VMX_FROM_PT_BIT = 17"

text \<open>
  Modelled from the spec: the control-word helpers of \<open>util/vmx.h\<close> are not part of the
  sources at hand. \<open>read_ctrl_proc_based\<close> reads the current processor-based execution
  controls and \<open>write_ctrl_proc_based\<close> writes them back. The \<open>_safe\<close> writers store the
  requested word after the adjustment \<open>ctrl_safe\<close> of the platform, which is given the
  field and the requested word.
\<close>

definition read_ctrl_proc_based :: "machine \<Rightarrow> u64" where
  "read_ctrl_proc_based m = vmx_vmread VMCS_CTRL_PROCESSOR_BASED_VM_EXECUTION_CONTROLS m"

definition write_ctrl_proc_based :: "u64 \<Rightarrow> machine \<Rightarrow> machine" where
  "write_ctrl_proc_based v m = vmx_vmwrite VMCS_CTRL_PROCESSOR_BASED_VM_EXECUTION_CONTROLS v m"

definition write_ctrl_safe :: "platform \<Rightarrow> u64 \<Rightarrow> u64 \<Rightarrow> machine \<Rightarrow> machine" where
  "write_ctrl_safe e field v m = vmx_vmwrite field (ctrl_safe e field v) m"

definition write_ctrl_pin_based_safe :: "platform \<Rightarrow> u64 \<Rightarrow> machine \<Rightarrow> machine" where
  "write_ctrl_pin_based_safe e v m =
     write_ctrl_safe e VMCS_CTRL_PIN_BASED_VM_EXECUTION_CONTROLS v m"

definition write_ctrl_proc_based_safe :: "platform \<Rightarrow> u64 \<Rightarrow> machine \<Rightarrow> machine" where
  "write_ctrl_proc_based_safe e v m =
     write_ctrl_safe e VMCS_CTRL_PROCESSOR_BASED_VM_EXECUTION_CONTROLS v m"

definition write_ctrl_proc_based2_safe :: "platform \<Rightarrow> u64 \<Rightarrow> machine \<Rightarrow> machine" where
  "write_ctrl_proc_based2_safe e v m =
     write_ctrl_safe e VMCS_CTRL_SECONDARY_PROCESSOR_BASED_VM_EXECUTION_CONTROLS v m"

definition write_ctrl_exit_safe :: "platform \<Rightarrow> u64 \<Rightarrow> machine \<Rightarrow> machine" where
  "write_ctrl_exit_safe e v m = write_ctrl_safe e VMCS_CTRL_VMEXIT_CONTROLS v m"

definition write_ctrl_entry_safe :: "platform \<Rightarrow> u64 \<Rightarrow> machine \<Rightarrow> machine" where
  "write_ctrl_entry_safe e v m = write_ctrl_safe e VMCS_CTRL_VMENTRY_CONTROLS v m"

definition write_vmcs_ctrl_fields :: "platform \<Rightarrow> machine \<Rightarrow> machine" where
  "write_vmcs_ctrl_fields e m =
     (let pin_based_ctrl = (0 :: u64);
          pin_based_ctrl = set_bit IA32_VMX_PINBASED_CTLS_VIRTUAL_NMI_BIT pin_based_ctrl;
          pin_based_ctrl = set_bit IA32_VMX_PINBASED_CTLS_NMI_EXITING_BIT pin_based_ctrl;
          m1 = write_ctrl_pin_based_safe e pin_based_ctrl m;
          proc_based_ctrl = (0 :: u64);
          proc_based_ctrl =
            (if ndebug e then proc_based_ctrl
             else set_bit IA32_VMX_PROCBASED_CTLS_CR3_STORE_EXITING_BIT
                    (set_bit IA32_VMX_PROCBASED_CTLS_CR3_LOAD_EXITING_BIT proc_based_ctrl));
          proc_based_ctrl = set_bit IA32_VMX_PROCBASED_CTLS_USE_MSR_BITMAPS_BIT proc_based_ctrl;
          proc_based_ctrl =
            set_bit IA32_VMX_PROCBASED_CTLS_ACTIVATE_SECONDARY_CONTROLS_BIT proc_based_ctrl;
          m2 = write_ctrl_proc_based_safe e proc_based_ctrl m1;
          proc_based_ctrl2 = (0 :: u64);
          proc_based_ctrl2 = set_bit IA32_VMX_PROCBASED_CTLS2_ENABLE_RDTSCP_BIT proc_based_ctrl2;
          proc_based_ctrl2 = set_bit IA32_VMX_PROCBASED_CTLS2_ENABLE_INVPCID_BIT proc_based_ctrl2;
          proc_based_ctrl2 = set_bit IA32_VMX_PROCBASED_CTLS2_ENABLE_XSAVES_BIT proc_based_ctrl2;
          proc_based_ctrl2 =
            set_bit IA32_VMX_PROCBASED_CTLS2_ENABLE_USER_WAIT_PAUSE_BIT proc_based_ctrl2;
          proc_based_ctrl2 =
            set_bit IA32_VMX_PROCBASED_CTLS2_CONCEAL_VMX_FROM_PT_BIT proc_based_ctrl2;
          m3 = write_ctrl_proc_based2_safe e proc_based_ctrl2 m2;
          exit_ctrl = (0 :: u64);
          exit_ctrl = set_bit IA32_VMX_EXIT_CTLS_SAVE_DEBUG_CONTROLS_BIT exit_ctrl;
          exit_ctrl = set_bit IA32_VMX_EXIT_CTLS_HOST_ADDRESS_SPACE_SIZE_BIT exit_ctrl;
          exit_ctrl = set_bit IA32_VMX_EXIT_CTLS_CONCEAL_VMX_FROM_PT_BIT exit_ctrl;
          m4 = write_ctrl_exit_safe e exit_ctrl m3;
          entry_ctrl = (0 :: u64);
          entry_ctrl = set_bit IA32_VMX_ENTRY_CTLS_LOAD_DEBUG_CONTROLS_BIT entry_ctrl;
          entry_ctrl = set_bit IA32_VMX_ENTRY_CTLS_IA32E_MODE_GUEST_BIT entry_ctrl;
          entry_ctrl = set_bit IA32_VMX_ENTRY_CTLS_CONCEAL_VMX_FROM_PT_BIT entry_ctrl;
          m5 = write_ctrl_entry_safe e entry_ctrl m4
      in vmx_vmwrites
           [(VMCS_CTRL_EXCEPTION_BITMAP, 0),
            (VMCS_CTRL_PAGEFAULT_ERROR_CODE_MASK, 0),
            (VMCS_CTRL_PAGEFAULT_ERROR_CODE_MATCH, 0),
            (VMCS_CTRL_CR4_GUEST_HOST_MASK, 0),
            (VMCS_CTRL_CR4_READ_SHADOW, 0),
            (VMCS_CTRL_CR0_GUEST_HOST_MASK, 0),
            (VMCS_CTRL_CR0_READ_SHADOW, 0),
            (VMCS_CTRL_CR3_TARGET_COUNT, 0),
            (VMCS_CTRL_CR3_TARGET_VALUE_0, 0),
            (VMCS_CTRL_CR3_TARGET_VALUE_1, 0),
            (VMCS_CTRL_CR3_TARGET_VALUE_2, 0),
            (VMCS_CTRL_CR3_TARGET_VALUE_3, 0),
            (VMCS_CTRL_MSR_BITMAP_ADDRESS, get_physical e (addr_msr_bitmap e)),
            (VMCS_CTRL_VMEXIT_MSR_STORE_COUNT, 0),
            (VMCS_CTRL_VMEXIT_MSR_STORE_ADDRESS, 0),
            (VMCS_CTRL_VMEXIT_MSR_LOAD_COUNT, 0),
            (VMCS_CTRL_VMEXIT_MSR_LOAD_ADDRESS, 0),
            (VMCS_CTRL_VMENTRY_MSR_LOAD_COUNT, 0),
            (VMCS_CTRL_VMENTRY_MSR_LOAD_ADDRESS, 0),
            (VMCS_CTRL_VMENTRY_INTERRUPTION_INFORMATION_FIELD, 0),
            (VMCS_CTRL_VMENTRY_EXCEPTION_ERROR_CODE, 0),
            (VMCS_CTRL_VMENTRY_INSTRUCTION_LENGTH, 0)] m5)"

text \<open>
  The host and guest writers are straight runs of \<open>vmx_vmwrite\<close>. The values they read
  (control registers, MSRs, descriptor-table registers) are not changed by a field write,
  so each is read from the state at entry.
\<close>

definition host_rsp :: "platform \<Rightarrow> u64" where
  "host_rsp e = ((addr_host_stack e + host_stack_size) AND NOT 0xF) - 8"

definition write_vmcs_host_fields :: "platform \<Rightarrow> machine \<Rightarrow> machine" where
  "write_vmcs_host_fields e m =
     (let rsp = host_rsp e
      in vmx_vmwrites
           [(VMCS_HOST_CR0, readcr0 m),
            (VMCS_HOST_CR3, readcr3 m),
            (VMCS_HOST_CR4, readcr4 m),
            (VMCS_HOST_RSP, rsp),
            (VMCS_HOST_RIP, addr_vm_exit e),
            (VMCS_HOST_CS_SELECTOR, ucast host_cs_selector),
            (VMCS_HOST_SS_SELECTOR, 0x00),
            (VMCS_HOST_DS_SELECTOR, 0x00),
            (VMCS_HOST_ES_SELECTOR, 0x00),
            (VMCS_HOST_FS_SELECTOR, 0x00),
            (VMCS_HOST_GS_SELECTOR, 0x00),
            (VMCS_HOST_TR_SELECTOR, ucast host_tr_selector),
            (VMCS_HOST_FS_BASE, 0),
            (VMCS_HOST_GS_BASE, 0),
            (VMCS_HOST_TR_BASE, addr_host_tss e),
            (VMCS_HOST_GDTR_BASE, addr_host_gdt e),
            (VMCS_HOST_IDTR_BASE, addr_host_idt e),
            (VMCS_HOST_SYSENTER_CS, 0),
            (VMCS_HOST_SYSENTER_ESP, 0),
            (VMCS_HOST_SYSENTER_EIP, 0)] m)"

definition write_vmcs_guest_fields :: "platform \<Rightarrow> machine \<Rightarrow> machine" where
  "write_vmcs_guest_fields e m =
     (let gdtr_v = gdtr m;
          idtr_v = idtr m
      in vmx_vmwrites
           [(VMCS_GUEST_CR0, readcr0 m),
            (VMCS_GUEST_CR3, readcr3 m),
            (VMCS_GUEST_CR4, readcr4 m),
            (VMCS_GUEST_DR7, dr7 m),
            (VMCS_GUEST_RSP, 0),
            (VMCS_GUEST_RIP, 0),
            (VMCS_GUEST_RFLAGS, readeflags m),
            (VMCS_GUEST_CS_SELECTOR, 0x10),
            (VMCS_GUEST_SS_SELECTOR, 0x18),
            (VMCS_GUEST_DS_SELECTOR, 0x2B),
            (VMCS_GUEST_ES_SELECTOR, 0x2B),
            (VMCS_GUEST_FS_SELECTOR, 0x53),
            (VMCS_GUEST_GS_SELECTOR, 0x2B),
            (VMCS_GUEST_TR_SELECTOR, 0x40),
            (VMCS_GUEST_LDTR_SELECTOR, 0x00),
            (VMCS_GUEST_CS_BASE, segment_base e gdtr_v 0x10),
            (VMCS_GUEST_SS_BASE, segment_base e gdtr_v 0x18),
            (VMCS_GUEST_DS_BASE, segment_base e gdtr_v 0x2B),
            (VMCS_GUEST_ES_BASE, segment_base e gdtr_v 0x2B),
            (VMCS_GUEST_FS_BASE, readmsr e IA32_FS_BASE),
            (VMCS_GUEST_GS_BASE, readmsr e IA32_GS_BASE),
            (VMCS_GUEST_TR_BASE, segment_base e gdtr_v 0x40),
            (VMCS_GUEST_LDTR_BASE, segment_base e gdtr_v 0x00),
            (VMCS_GUEST_CS_LIMIT, segmentlimit e 0x10),
            (VMCS_GUEST_SS_LIMIT, segmentlimit e 0x18),
            (VMCS_GUEST_DS_LIMIT, segmentlimit e 0x2B),
            (VMCS_GUEST_ES_LIMIT, segmentlimit e 0x2B),
            (VMCS_GUEST_FS_LIMIT, segmentlimit e 0x53),
            (VMCS_GUEST_GS_LIMIT, segmentlimit e 0x2B),
            (VMCS_GUEST_TR_LIMIT, segmentlimit e 0x40),
            (VMCS_GUEST_LDTR_LIMIT, segmentlimit e 0x00),
            (VMCS_GUEST_CS_ACCESS_RIGHTS, segment_access e gdtr_v 0x10),
            (VMCS_GUEST_SS_ACCESS_RIGHTS, segment_access e gdtr_v 0x18),
            (VMCS_GUEST_DS_ACCESS_RIGHTS, segment_access e gdtr_v 0x2B),
            (VMCS_GUEST_ES_ACCESS_RIGHTS, segment_access e gdtr_v 0x2B),
            (VMCS_GUEST_FS_ACCESS_RIGHTS, segment_access e gdtr_v 0x53),
            (VMCS_GUEST_GS_ACCESS_RIGHTS, segment_access e gdtr_v 0x2B),
            (VMCS_GUEST_TR_ACCESS_RIGHTS, segment_access e gdtr_v 0x40),
            (VMCS_GUEST_LDTR_ACCESS_RIGHTS, segment_access e gdtr_v 0x00),
            (VMCS_GUEST_GDTR_BASE, base_address gdtr_v),
            (VMCS_GUEST_IDTR_BASE, base_address idtr_v),
            (VMCS_GUEST_GDTR_LIMIT, ucast (limit gdtr_v)),
            (VMCS_GUEST_IDTR_LIMIT, ucast (limit idtr_v)),
            (VMCS_GUEST_DEBUGCTL, readmsr e IA32_DEBUGCTL),
            (VMCS_GUEST_SYSENTER_CS, readmsr e IA32_SYSENTER_CS),
            (VMCS_GUEST_SYSENTER_ESP, readmsr e IA32_SYSENTER_ESP),
            (VMCS_GUEST_SYSENTER_EIP, readmsr e IA32_SYSENTER_EIP),
            (VMCS_GUEST_ACTIVITY_STATE, vmx_active),
            (VMCS_GUEST_INTERRUPTIBILITY_STATE, 0),
            (VMCS_GUEST_PENDING_DEBUG_EXCEPTIONS, 0),
            (VMCS_GUEST_VMCS_LINK_POINTER, 0xFFFFFFFFFFFFFFFF)] m)"

section \<open>Bring-up of one core\<close>

definition virtualize :: "platform \<Rightarrow> machine \<Rightarrow> error + bool \<times> machine" where
  "virtualize e m =
     (case enable_vmx_operation e m of
        (False, m1) \<Rightarrow> Inr (False, m1)
      | (True, m1) \<Rightarrow>
          let m2 = dbg_print ''[hv] enabled vmx operation.\<newline>'' [] m1 in
          (case enter_vmx_operation e m2 of
             Inl err \<Rightarrow> Inl err
           | Inr (False, m3) \<Rightarrow> Inr (False, m3)
           | Inr (True, m3) \<Rightarrow>
               let m4 = dbg_print ''[hv] entered vmx operation.\<newline>'' [] m3 in
               (case set_vmcs_pointer e m4 of
                  Inl err \<Rightarrow> Inl err
                | Inr (False, m5) \<Rightarrow> Inr (False, vmx_vmxoff m5)
                | Inr (True, m5) \<Rightarrow>
                    let m6 = dbg_print ''[hv] set vmcs pointer.\<newline>'' [] m5;
                        m7 = prepare_external_structures e m6;
                        m8 = dbg_print ''[hv] initialized external host structures.\<newline>'' [] m7;
                        m9 = write_vmcs_ctrl_fields e m8;
                        m10 = write_vmcs_host_fields e m9;
                        m11 = write_vmcs_guest_fields e m10;
                        m12 = dbg_print ''[hv] initialized the vmcs.\<newline>'' [] m11
                    in (case vm_launch e m12 of
                          (False, m13) \<Rightarrow>
                            let m14 = dbg_print ''[hv] vmlaunch failed, error = %lli.\<newline>''
                                        [vmx_vmread VMCS_VM_INSTRUCTION_ERROR m13] m13
                            in Inr (False, vmx_vmxoff m14)
                        | (True, m13) \<Rightarrow>
                            Inr (True, dbg_print ''[hv] virtualized cpu #%i\<newline>''
                                         [processor_index e] m13)))))"

section \<open>Exit dispatcher\<close>

text \<open>Basic exit reasons (ia32.hpp), and the 16-bit field of the exit-reason word.\<close>

definition VMX_EXIT_REASON_EXCEPTION_OR_NMI :: u16 where
  "VMX_EXIT_REASON_EXCEPTION_OR_NMI = 0"

definition VMX_EXIT_REASON_NMI_WINDOW :: u16 where
  "VMX_EXIT_REASON_NMI_WINDOW = 8"

definition VMX_EXIT_REASON_EXECUTE_CPUID :: u16 where
  "VMX_EXIT_REASON_EXECUTE_CPUID = 10"

definition VMX_EXIT_REASON_MOV_CR :: u16 where
  "VMX_EXIT_REASON_MOV_CR = 28"

definition VMX_EXIT_REASON_EXECUTE_RDMSR :: u16 where
  "VMX_EXIT_REASON_EXECUTE_RDMSR = 31"

definition VMX_EXIT_REASON_EXECUTE_WRMSR :: u16 where
  "VMX_EXIT_REASON_EXECUTE_WRMSR = 32"

definition basic_exit_reason :: "u32 \<Rightarrow> u16" where
  "basic_exit_reason flags = ucast flags"

text \<open>
  The six handlers of exit-handlers.h are external: each takes the guest context by
  reference and may change it and the machine in any way. Their bodies are parameters,
  and the dispatcher calls them as they are.
\<close>

record 'ctx exit_handlers =
  handle_mov_cr :: "'ctx \<Rightarrow> machine \<Rightarrow> 'ctx \<times> machine"
  emulate_cpuid :: "'ctx \<Rightarrow> machine \<Rightarrow> 'ctx \<times> machine"
  emulate_rdmsr :: "'ctx \<Rightarrow> machine \<Rightarrow> 'ctx \<times> machine"
  emulate_wrmsr :: "'ctx \<Rightarrow> machine \<Rightarrow> 'ctx \<times> machine"
  handle_exception_or_nmi :: "'ctx \<Rightarrow> machine \<Rightarrow> 'ctx \<times> machine"
  handle_nmi_window :: "'ctx \<Rightarrow> machine \<Rightarrow> 'ctx \<times> machine"

definition handle_vm_exit :: "'ctx exit_handlers \<Rightarrow> 'ctx \<Rightarrow> machine \<Rightarrow> 'ctx \<times> machine" where
  "handle_vm_exit h ctx m =
     (let exit_reason = (ucast (vmx_vmread VMCS_EXIT_REASON m) :: u32);
          reason = basic_exit_reason exit_reason
      in if reason = VMX_EXIT_REASON_MOV_CR
           then handle_mov_cr h ctx m
         else if reason = VMX_EXIT_REASON_EXECUTE_CPUID
           then emulate_cpuid h ctx m
         else if reason = VMX_EXIT_REASON_EXECUTE_RDMSR
           then emulate_rdmsr h ctx m
         else if reason = VMX_EXIT_REASON_EXECUTE_WRMSR
           then emulate_wrmsr h ctx m
         else if reason = VMX_EXIT_REASON_EXCEPTION_OR_NMI
           then handle_exception_or_nmi h ctx m
         else if reason = VMX_EXIT_REASON_NMI_WINDOW
           then handle_nmi_window h ctx m
         else
           let m1 = debugbreak m;
               m2 = dbg_print ''[hv] vm-exit occurred. RIP=0x%zX.\<newline>''
                      [vmx_vmread VMCS_GUEST_RIP m1] m1
           in (ctx, m2))"

section \<open>Host interrupt bridge\<close>

text \<open>
  \<open>trap_frame\<close> (trap-frame.h) carries at least the interrupt vector; \<open>nmi\<close> is the
  exception vector 2.
\<close>

record trap_frame =
  vector :: u64

definition nmi :: u64 where
  "nmi = 2"

definition handle_host_interrupt :: "'a trap_frame_scheme \<Rightarrow> machine \<Rightarrow> machine" where
  "handle_host_interrupt frame m =
     (if vector frame = nmi then
        let ctrl = read_ctrl_proc_based m;
            ctrl = set_bit IA32_VMX_PROCBASED_CTLS_NMI_WINDOW_EXITING_BIT ctrl
        in write_ctrl_proc_based ctrl m
      else m)"

section \<open>A concrete core\<close>

text \<open>
  A platform and a machine state with the register values of a common 64-bit core, used
  to evaluate the model. The gate of \<open>demo_platform\<close> is open and every VMX
  instruction succeeds on it; the region headers of \<open>demo_machine\<close> hold stale values
  and its live code-segment selector is \<open>0x33\<close>.
\<close>

definition demo_msr :: "u32 \<Rightarrow> u64" where
  "demo_msr n =
     (if n = IA32_FEATURE_CONTROL then 0x5
      else if n = IA32_VMX_BASIC then 0xDA040000000004
      else if n = IA32_VMX_CR0_FIXED0 then 0x80000021
      else if n = IA32_VMX_CR0_FIXED1 then 0xFFFFFFFF
      else if n = IA32_VMX_CR4_FIXED0 then 0x2000
      else if n = IA32_VMX_CR4_FIXED1 then 0x3727FF
      else 0)"

definition demo_platform :: platform where
  "demo_platform =
     \<lparr>cpuid_leaf = (\<lambda>leaf. \<lparr>eax = 0x906EA, ebx = 0, ecx = 0x7FFAFBFF, edx = 0xBFEBFBFF\<rparr>),
      msr = demo_msr,
      dbg = True,
      ndebug = False,
      get_physical = (\<lambda>va. va - 0xFFFF800000000000),
      addr_vmxon = 0xFFFF800000100000,
      addr_vmcs = 0xFFFF800000101000,
      addr_msr_bitmap = 0xFFFF800000102000,
      addr_host_stack = 0xFFFF800000103000,
      addr_host_tss = 0xFFFF800000109000,
      addr_host_idt = 0xFFFF80000010A000,
      addr_host_gdt = 0xFFFF80000010B000,
      addr_vm_exit = 0xFFFFF80000200000,
      vmxon_ok = True,
      vmclear_ok = True,
      vmptrld_ok = True,
      vm_launch_ok = True,
      vm_launch_error = 7,
      vm_launch_rsp = 0xFFFFF80000300FF8,
      vm_launch_rip = 0xFFFFF80000200100,
      processor_index = 0,
      prepare_host_idt = (\<lambda>idt. idt),
      prepare_host_gdt = (\<lambda>gdt tss. gdt),
      ctrl_safe = (\<lambda>field v. v),
      segment_base = (\<lambda>gdtr_v sel. 0),
      segment_access = (\<lambda>gdtr_v sel. 0x10000),
      segmentlimit = (\<lambda>sel. 0xFFFFFFFF)\<rparr>"

definition demo_machine :: machine where
  "demo_machine =
     \<lparr>cr0 = 0x80050033,
      cr3 = 0x1AD000,
      cr4 = 0x3506F8,
      dr7 = 0x400,
      rflags = 0x202,
      gdtr = \<lparr>limit = 0x57, base_address = 0xFFFFF80000001000\<rparr>,
      idtr = \<lparr>limit = 0xFFF, base_address = 0xFFFFF80000002000\<rparr>,
      sregs = \<lparr>seg_cs = 0x33, seg_ss = 0x2B, seg_ds = 0x2B, seg_es = 0x2B,
               seg_fs = 0x53, seg_gs = 0x2B, seg_tr = 0x40, seg_ldtr = 0\<rparr>,
      vmx_operation = False,
      vcpu_vmxon = \<lparr>vmxon.revision_id = 0x7F, must_be_zero = 1\<rparr>,
      vcpu_vmcs = \<lparr>vmcs.revision_id = 0x7F, shadow_vmcs_indicator = 1\<rparr>,
      vcpu_msr_bitmap = [0xFF, 0x01],
      vcpu_host_tss = [0xAA],
      vcpu_host_idt = [],
      vcpu_host_gdt = [],
      vmcs_fields = (\<lambda>field. 0),
      trace = []\<rparr>"

text \<open>
  The machine after root-mode entry, after the lifecycle step, and after a failed VMCLEAR.
\<close>

definition demo_entered :: machine where
  "demo_entered =
     demo_machine\<lparr>vmx_operation := True,
                  vcpu_vmxon := \<lparr>vmxon.revision_id = 4, must_be_zero = 0\<rparr>,
                  trace := [Vmxon 0x100000 \<lparr>vmxon.revision_id = 4, must_be_zero = 0\<rparr>,
                            Invept 2 (0, 0)]\<rparr>"

definition demo_loaded :: machine where
  "demo_loaded =
     demo_machine\<lparr>vcpu_vmcs := \<lparr>vmcs.revision_id = 4, shadow_vmcs_indicator = 0\<rparr>,
                  trace := [Vmclear 0x101000 \<lparr>vmcs.revision_id = 4, shadow_vmcs_indicator = 0\<rparr>,
                            Vmptrld 0x101000 \<lparr>vmcs.revision_id = 4, shadow_vmcs_indicator = 0\<rparr>]\<rparr>"

definition demo_clear_failed :: machine where
  "demo_clear_failed =
     demo_machine\<lparr>vcpu_vmcs := \<lparr>vmcs.revision_id = 4, shadow_vmcs_indicator = 0\<rparr>,
                  trace := [Vmclear 0x101000 \<lparr>vmcs.revision_id = 4, shadow_vmcs_indicator = 0\<rparr>]\<rparr>"

text \<open>Machines with a CPUID exit and a VMCALL exit pending, and with typical controls.\<close>

definition demo_cpuid_exit :: machine where
  "demo_cpuid_exit = vmx_vmwrite VMCS_EXIT_REASON 10 demo_machine"

definition demo_vmcall_exit :: machine where
  "demo_vmcall_exit = vmx_vmwrite VMCS_EXIT_REASON 18 demo_machine"

definition demo_controls :: machine where
  "demo_controls =
     vmx_vmwrite VMCS_CTRL_PROCESSOR_BASED_VM_EXECUTION_CONTROLS 0x84006172 demo_machine"

text \<open>Exit handlers that leave a mark in the guest context, a list of words.\<close>

definition demo_handlers :: "u64 list exit_handlers" where
  "demo_handlers =
     \<lparr>handle_mov_cr = (\<lambda>ctx m. (1 # ctx, m)),
      emulate_cpuid =
        (\<lambda>ctx m. (2 # ctx, vmx_vmwrite VMCS_GUEST_RIP (vmx_vmread VMCS_GUEST_RIP m + 2) m)),
      emulate_rdmsr = (\<lambda>ctx m. (3 # ctx, m)),
      emulate_wrmsr = (\<lambda>ctx m. (4 # ctx, m)),
      handle_exception_or_nmi = (\<lambda>ctx m. (5 # ctx, m)),
      handle_nmi_window = (\<lambda>ctx m. (6 # ctx, m))\<rparr>"

text \<open>
  Exit handlers that tell each other apart: each prints its own name and does nothing
  else.
\<close>

definition probe_handlers :: "'ctx exit_handlers" where
  "probe_handlers =
     \<lparr>handle_mov_cr = (\<lambda>ctx m. (ctx, dbg_print ''handle_mov_cr'' [] m)),
      emulate_cpuid = (\<lambda>ctx m. (ctx, dbg_print ''emulate_cpuid'' [] m)),
      emulate_rdmsr = (\<lambda>ctx m. (ctx, dbg_print ''emulate_rdmsr'' [] m)),
      emulate_wrmsr = (\<lambda>ctx m. (ctx, dbg_print ''emulate_wrmsr'' [] m)),
      handle_exception_or_nmi = (\<lambda>ctx m. (ctx, dbg_print ''handle_exception_or_nmi'' [] m)),
      handle_nmi_window = (\<lambda>ctx m. (ctx, dbg_print ''handle_nmi_window'' [] m))\<rparr>"

section \<open>Auxiliary facts\<close>

lemmas msr_defs =
  IA32_FEATURE_CONTROL_def IA32_VMX_BASIC_def
  IA32_VMX_CR0_FIXED0_def IA32_VMX_CR0_FIXED1_def
  IA32_VMX_CR4_FIXED0_def IA32_VMX_CR4_FIXED1_def
  IA32_DEBUGCTL_def IA32_SYSENTER_CS_def IA32_SYSENTER_ESP_def IA32_SYSENTER_EIP_def
  IA32_FS_BASE_def IA32_GS_BASE_def

lemmas vmcs_ctrl_field_defs =
  VMCS_CTRL_MSR_BITMAP_ADDRESS_def VMCS_CTRL_VMEXIT_MSR_STORE_ADDRESS_def
  VMCS_CTRL_VMEXIT_MSR_LOAD_ADDRESS_def VMCS_CTRL_VMENTRY_MSR_LOAD_ADDRESS_def
  VMCS_CTRL_PIN_BASED_VM_EXECUTION_CONTROLS_def
  VMCS_CTRL_PROCESSOR_BASED_VM_EXECUTION_CONTROLS_def VMCS_CTRL_EXCEPTION_BITMAP_def
  VMCS_CTRL_PAGEFAULT_ERROR_CODE_MASK_def VMCS_CTRL_PAGEFAULT_ERROR_CODE_MATCH_def
  VMCS_CTRL_CR3_TARGET_COUNT_def VMCS_CTRL_VMEXIT_CONTROLS_def
  VMCS_CTRL_VMEXIT_MSR_STORE_COUNT_def VMCS_CTRL_VMEXIT_MSR_LOAD_COUNT_def
  VMCS_CTRL_VMENTRY_CONTROLS_def VMCS_CTRL_VMENTRY_MSR_LOAD_COUNT_def
  VMCS_CTRL_VMENTRY_INTERRUPTION_INFORMATION_FIELD_def
  VMCS_CTRL_VMENTRY_EXCEPTION_ERROR_CODE_def VMCS_CTRL_VMENTRY_INSTRUCTION_LENGTH_def
  VMCS_CTRL_SECONDARY_PROCESSOR_BASED_VM_EXECUTION_CONTROLS_def
  VMCS_CTRL_CR0_GUEST_HOST_MASK_def VMCS_CTRL_CR4_GUEST_HOST_MASK_def
  VMCS_CTRL_CR0_READ_SHADOW_def VMCS_CTRL_CR4_READ_SHADOW_def VMCS_CTRL_CR3_TARGET_VALUE_0_def
  VMCS_CTRL_CR3_TARGET_VALUE_1_def VMCS_CTRL_CR3_TARGET_VALUE_2_def
  VMCS_CTRL_CR3_TARGET_VALUE_3_def VMCS_VM_INSTRUCTION_ERROR_def VMCS_EXIT_REASON_def

lemmas vmcs_guest_field_defs =
  VMCS_GUEST_ES_SELECTOR_def VMCS_GUEST_CS_SELECTOR_def VMCS_GUEST_SS_SELECTOR_def
  VMCS_GUEST_DS_SELECTOR_def VMCS_GUEST_FS_SELECTOR_def VMCS_GUEST_GS_SELECTOR_def
  VMCS_GUEST_LDTR_SELECTOR_def VMCS_GUEST_TR_SELECTOR_def VMCS_GUEST_VMCS_LINK_POINTER_def
  VMCS_GUEST_DEBUGCTL_def VMCS_GUEST_ES_LIMIT_def VMCS_GUEST_CS_LIMIT_def
  VMCS_GUEST_SS_LIMIT_def VMCS_GUEST_DS_LIMIT_def VMCS_GUEST_FS_LIMIT_def
  VMCS_GUEST_GS_LIMIT_def VMCS_GUEST_LDTR_LIMIT_def VMCS_GUEST_TR_LIMIT_def
  VMCS_GUEST_GDTR_LIMIT_def VMCS_GUEST_IDTR_LIMIT_def VMCS_GUEST_ES_ACCESS_RIGHTS_def
  VMCS_GUEST_CS_ACCESS_RIGHTS_def VMCS_GUEST_SS_ACCESS_RIGHTS_def
  VMCS_GUEST_DS_ACCESS_RIGHTS_def VMCS_GUEST_FS_ACCESS_RIGHTS_def
  VMCS_GUEST_GS_ACCESS_RIGHTS_def VMCS_GUEST_LDTR_ACCESS_RIGHTS_def
  VMCS_GUEST_TR_ACCESS_RIGHTS_def VMCS_GUEST_INTERRUPTIBILITY_STATE_def
  VMCS_GUEST_ACTIVITY_STATE_def VMCS_GUEST_SYSENTER_CS_def VMCS_GUEST_CR0_def
  VMCS_GUEST_CR3_def VMCS_GUEST_CR4_def VMCS_GUEST_ES_BASE_def VMCS_GUEST_CS_BASE_def
  VMCS_GUEST_SS_BASE_def VMCS_GUEST_DS_BASE_def VMCS_GUEST_FS_BASE_def VMCS_GUEST_GS_BASE_def
  VMCS_GUEST_LDTR_BASE_def VMCS_GUEST_TR_BASE_def VMCS_GUEST_GDTR_BASE_def
  VMCS_GUEST_IDTR_BASE_def VMCS_GUEST_DR7_def VMCS_GUEST_RSP_def VMCS_GUEST_RIP_def
  VMCS_GUEST_RFLAGS_def VMCS_GUEST_PENDING_DEBUG_EXCEPTIONS_def VMCS_GUEST_SYSENTER_ESP_def
  VMCS_GUEST_SYSENTER_EIP_def

lemmas vmcs_host_field_defs =
  VMCS_HOST_ES_SELECTOR_def VMCS_HOST_CS_SELECTOR_def VMCS_HOST_SS_SELECTOR_def
  VMCS_HOST_DS_SELECTOR_def VMCS_HOST_FS_SELECTOR_def VMCS_HOST_GS_SELECTOR_def
  VMCS_HOST_TR_SELECTOR_def VMCS_HOST_SYSENTER_CS_def VMCS_HOST_CR0_def VMCS_HOST_CR3_def
  VMCS_HOST_CR4_def VMCS_HOST_FS_BASE_def VMCS_HOST_GS_BASE_def VMCS_HOST_TR_BASE_def
  VMCS_HOST_GDTR_BASE_def VMCS_HOST_IDTR_BASE_def VMCS_HOST_SYSENTER_ESP_def
  VMCS_HOST_SYSENTER_EIP_def VMCS_HOST_RSP_def VMCS_HOST_RIP_def

lemmas vmcs_field_defs = vmcs_ctrl_field_defs vmcs_guest_field_defs vmcs_host_field_defs

lemmas exit_reason_defs =
  VMX_EXIT_REASON_EXCEPTION_OR_NMI_def VMX_EXIT_REASON_NMI_WINDOW_def
  VMX_EXIT_REASON_EXECUTE_CPUID_def VMX_EXIT_REASON_MOV_CR_def
  VMX_EXIT_REASON_EXECUTE_RDMSR_def VMX_EXIT_REASON_EXECUTE_WRMSR_def

subsection \<open>Bit masks and alignment\<close>

lemma flag_after_masks:
  "((((x :: u64) OR f) OR a) AND b) AND f = f \<longleftrightarrow> b AND f = f"
proof -
  have "(((x OR f) OR a) AND b) AND f = b AND f"
    by (rule bit_word_eqI) (auto simp: bit_and_iff bit_or_iff)
  then show ?thesis by simp
qed

lemma fixed1_respected: "(((x :: u64) OR a) AND b) AND NOT b = 0"
  by (rule bit_word_eqI) (auto simp: bit_and_iff bit_or_iff bit_not_iff)

lemma fixed0_respected:
  assumes "(a :: u64) AND b = a"
  shows "((x OR a) AND b) AND a = a"
proof -
  have "((x OR a) AND b) AND a = a AND b"
    by (rule bit_word_eqI) (auto simp: bit_and_iff bit_or_iff)
  with assms show ?thesis by simp
qed

lemma low4_mask: "(0xF::u64) = mask 4"
  by (simp add: mask_eq_exp_minus_1)

lemma align16_take_bit: "take_bit 4 ((x::u64) AND NOT 0xF) = 0"
  unfolding low4_mask
  by (rule bit_word_eqI) (auto simp: bit_take_bit_iff bit_and_iff bit_not_iff bit_mask_iff)

lemma align16_push_drop: "(x::u64) AND NOT 0xF = push_bit 4 (drop_bit 4 x)"
  unfolding low4_mask
  by (rule bit_word_eqI)
     (auto simp: bit_and_iff bit_not_iff bit_mask_iff bit_push_bit_iff bit_drop_bit_eq)

lemma align16_uint_mod: "uint ((x::u64) AND NOT 0xF) mod 16 = 0"
proof -
  have "take_bit 4 (uint (x AND NOT 0xF)) = uint (take_bit 4 (x AND NOT 0xF))"
    by (simp only: unsigned_take_bit_eq)
  also have "\<dots> = 0"
    by (simp only: align16_take_bit uint_0_eq)
  finally show ?thesis
    by (simp add: take_bit_eq_mod)
qed

lemma host_rsp_uint_mod: "uint (((x::u64) AND NOT 0xF) - 8) mod 16 = 8"
proof -
  let ?y = "x AND NOT 0xF"
  have "uint (?y - 8) = (uint ?y - 8) mod 2 ^ 64"
    by (simp add: uint_word_ariths)
  then have "uint (?y - 8) mod 16 = (uint ?y - 8) mod 16"
    by (simp add: mod_mod_cancel)
  also have "\<dots> = (uint ?y mod 16 - 8 mod 16) mod 16"
    by (rule mod_diff_eq [symmetric])
  also have "\<dots> = 8"
    by (simp only: align16_uint_mod) simp
  finally show ?thesis .
qed

lemma host_rsp_unat_mod: "unat (((x::u64) AND NOT 0xF) - 8) mod 16 = 8"
proof -
  let ?w = "(x AND NOT 0xF) - 8"
  have "unat ?w mod 16 = nat (uint ?w) mod nat 16"
    by (simp only: unat_eq_nat_uint nat_numeral)
  also have "\<dots> = nat (uint ?w mod 16)"
    by (rule nat_mod_distrib [symmetric]) simp_all
  also have "\<dots> = 8"
    by (simp only: host_rsp_uint_mod nat_numeral)
  finally show ?thesis .
qed

lemma align16_round_down: "unat ((x::u64) AND NOT 0xF) = unat x - unat x mod 16"
proof -
  let ?y = "x AND NOT 0xF"
  define r where "r = unat x mod 16"
  have le: "?y \<le> x"
    by (rule word_and_le2)
  have "?y + take_bit 4 x = x"
    unfolding align16_push_drop by (rule bits_ident)
  then have "x - ?y = take_bit 4 x"
    by (metis add_diff_cancel_left')
  then have "unat (x - ?y) = unat (x mod 16)"
    by (simp only: take_bit_eq_mod) simp
  also have "\<dots> = r"
    unfolding r_def by (simp only: unat_mod) simp
  finally have a: "unat (x - ?y) = r" .
  have b: "unat (x - ?y) = unat x - unat ?y"
    using le by (rule unat_sub)
  have c: "unat ?y \<le> unat x"
    using le unfolding word_le_nat_alt .
  from a b c have "unat ?y = unat x - r"
    by linarith
  then show ?thesis
    unfolding r_def .
qed

subsection \<open>Field writes and the event trace\<close>

lemma vmx_vmwrites_eq:
  "vmx_vmwrites ws m =
     m\<lparr>vmcs_fields := foldl (\<lambda>f (field, v). f(field := v)) (vmcs_fields m) ws\<rparr>"
  by (induction ws arbitrary: m) (auto simp: vmx_vmwrite_def)

lemma vmx_vmread_vmwrite:
  "vmx_vmread field (vmx_vmwrite field' v m) = (if field = field' then v else vmx_vmread field m)"
  by (simp add: vmx_vmread_def vmx_vmwrite_def)

lemma trace_vmx_vmwrite [simp]: "trace (vmx_vmwrite f v m) = trace m"
  by (simp add: vmx_vmwrite_def)

lemma issued_append [simp]: "trace m' = trace m @ evs \<Longrightarrow> issued m m' = evs"
  by (simp add: issued_def)

lemma issued_self [simp]: "issued m m = []"
  by (simp add: issued_def)

lemma vmx_vmwrites_frame [simp]:
  "trace (vmx_vmwrites ws m) = trace m"
  "vmx_operation (vmx_vmwrites ws m) = vmx_operation m"
  by (simp_all add: vmx_vmwrites_eq)

lemma vmx_vmwrite_frame [simp]:
  "vmx_operation (vmx_vmwrite f v m) = vmx_operation m"
  by (simp add: vmx_vmwrite_def)

lemma log_event_frame [simp]:
  "trace (log_event ev m) = trace m @ [ev]"
  "vmx_operation (log_event ev m) = vmx_operation m"
  by (simp_all add: log_event_def)

lemma dbg_print_frame [simp]:
  "trace (dbg_print fmt args m) = trace m @ [DbgPrint fmt args]"
  "vmx_operation (dbg_print fmt args m) = vmx_operation m"
  by (simp_all add: dbg_print_def)

lemma vmx_vmxoff_frame [simp]:
  "trace (vmx_vmxoff m) = trace m @ [Vmxoff]"
  "vmx_operation (vmx_vmxoff m) = False"
  by (simp_all add: vmx_vmxoff_def)

lemma prepare_external_structures_frame [simp]:
  "trace (prepare_external_structures e m) = trace m"
  "vmx_operation (prepare_external_structures e m) = vmx_operation m"
  by (simp_all add: prepare_external_structures_def Let_def)

lemma write_vmcs_ctrl_fields_frame [simp]:
  "trace (write_vmcs_ctrl_fields e m) = trace m"
  "vmx_operation (write_vmcs_ctrl_fields e m) = vmx_operation m"
  by (simp_all add: write_vmcs_ctrl_fields_def Let_def write_ctrl_pin_based_safe_def
      write_ctrl_proc_based_safe_def write_ctrl_proc_based2_safe_def write_ctrl_exit_safe_def
      write_ctrl_entry_safe_def write_ctrl_safe_def del: vmx_vmwrites.simps)

lemma write_vmcs_host_fields_frame [simp]:
  "trace (write_vmcs_host_fields e m) = trace m"
  "vmx_operation (write_vmcs_host_fields e m) = vmx_operation m"
  by (simp_all add: write_vmcs_host_fields_def Let_def del: vmx_vmwrites.simps)

lemma write_vmcs_guest_fields_frame [simp]:
  "trace (write_vmcs_guest_fields e m) = trace m"
  "vmx_operation (write_vmcs_guest_fields e m) = vmx_operation m"
  by (simp_all add: write_vmcs_guest_fields_def Let_def del: vmx_vmwrites.simps)

lemma host_rsp_written:
  "vmx_vmread VMCS_HOST_RSP (write_vmcs_host_fields e m) = host_rsp e"
  by (simp add: write_vmcs_host_fields_def Let_def vmx_vmread_vmwrite vmcs_host_field_defs)

lemma guest_selectors_written:
  "vmx_vmread VMCS_GUEST_CS_SELECTOR (write_vmcs_guest_fields e m) = 0x10"
  "vmx_vmread VMCS_GUEST_SS_SELECTOR (write_vmcs_guest_fields e m) = 0x18"
  "vmx_vmread VMCS_GUEST_DS_SELECTOR (write_vmcs_guest_fields e m) = 0x2B"
  "vmx_vmread VMCS_GUEST_ES_SELECTOR (write_vmcs_guest_fields e m) = 0x2B"
  "vmx_vmread VMCS_GUEST_FS_SELECTOR (write_vmcs_guest_fields e m) = 0x53"
  "vmx_vmread VMCS_GUEST_GS_SELECTOR (write_vmcs_guest_fields e m) = 0x2B"
  "vmx_vmread VMCS_GUEST_TR_SELECTOR (write_vmcs_guest_fields e m) = 0x40"
  "vmx_vmread VMCS_GUEST_LDTR_SELECTOR (write_vmcs_guest_fields e m) = 0x00"
  by (simp_all add: write_vmcs_guest_fields_def Let_def vmx_vmread_vmwrite
      vmcs_guest_field_defs)

subsection \<open>The steps of the bring-up\<close>

lemma enable_vmx_operation_fail:
  assumes "\<not> virtual_machine_extensions (cpuid_leaf e 1)
         \<or> \<not> lock_bit (readmsr e IA32_FEATURE_CONTROL)
         \<or> \<not> enable_vmx_outside_smx (readmsr e IA32_FEATURE_CONTROL)"
  shows "enable_vmx_operation e m = (False, m)"
  using assms by (auto simp: enable_vmx_operation_def Let_def)

lemma enable_vmx_operation_success:
  assumes "fst (enable_vmx_operation e m)"
  shows "snd (enable_vmx_operation e m) =
     m\<lparr>rflags := set_bit 9 (unset_bit 9 (rflags m)),
       cr0 := (cr0 m OR readmsr e IA32_VMX_CR0_FIXED0) AND readmsr e IA32_VMX_CR0_FIXED1,
       cr4 := ((cr4 m OR CR4_VMX_ENABLE_FLAG) OR readmsr e IA32_VMX_CR4_FIXED0)
                AND readmsr e IA32_VMX_CR4_FIXED1\<rparr>"
  using assms
  by (auto simp: enable_vmx_operation_def Let_def intr_disable_def intr_enable_def
      readcr0_def readcr4_def writecr0_def writecr4_def split: if_splits)

lemma enable_vmx_operation_true_iff:
  "fst (enable_vmx_operation e m) \<longleftrightarrow>
     virtual_machine_extensions (cpuid_leaf e 1)
     \<and> lock_bit (readmsr e IA32_FEATURE_CONTROL)
     \<and> enable_vmx_outside_smx (readmsr e IA32_FEATURE_CONTROL)"
  by (auto simp: enable_vmx_operation_def Let_def)

lemma enable_vmx_operation_frame:
  "trace (snd (enable_vmx_operation e m)) = trace m"
  "vmx_operation (snd (enable_vmx_operation e m)) = vmx_operation m"
  by (simp_all add: enable_vmx_operation_def Let_def intr_disable_def intr_enable_def
      writecr0_def writecr4_def)

text \<open>
  Root-mode entry and the lifecycle step, by outcome: the region header is stamped first,
  the alignment assertion comes next, the instructions last.
\<close>

lemma enter_vmx_operation_cases:
  "enter_vmx_operation e m =
     (let stamped = m\<lparr>vcpu_vmxon := \<lparr>vmxon.revision_id = vmcs_revision_id (readmsr e IA32_VMX_BASIC),
                                      must_be_zero = 0\<rparr>\<rparr>;
          phys = get_physical e (addr_vmxon e)
      in if dbg e \<and> phys mod 0x1000 \<noteq> 0 then Inl Assertion_failure
         else if \<not> vmxon_ok e
           then Inr (False, stamped\<lparr>trace := trace m @ [Vmxon phys (vcpu_vmxon stamped)]\<rparr>)
         else Inr (True,
                   stamped\<lparr>vmx_operation := True,
                           trace := trace m @ [Vmxon phys (vcpu_vmxon stamped),
                                               Invept invept_all_context (0, 0)]\<rparr>))"
  by (cases "vcpu_vmxon m"; cases "vmxon_ok e")
     (simp_all add: enter_vmx_operation_def Let_def nt_assert_fails_def vmx_vmxon_def vmx_invept_def
      log_event_def)

lemma set_vmcs_pointer_cases:
  "set_vmcs_pointer e m =
     (let stamped = m\<lparr>vcpu_vmcs := \<lparr>vmcs.revision_id = vmcs_revision_id (readmsr e IA32_VMX_BASIC),
                                     shadow_vmcs_indicator = 0\<rparr>\<rparr>;
          phys = get_physical e (addr_vmcs e)
      in if dbg e \<and> phys mod 0x1000 \<noteq> 0 then Inl Assertion_failure
         else if \<not> vmclear_ok e
           then Inr (False, stamped\<lparr>trace := trace m @ [Vmclear phys (vcpu_vmcs stamped)]\<rparr>)
         else Inr (vmptrld_ok e,
                   stamped\<lparr>trace := trace m @ [Vmclear phys (vcpu_vmcs stamped),
                                                 Vmptrld phys (vcpu_vmcs stamped)]\<rparr>))"
  by (cases "vcpu_vmcs m"; cases "vmclear_ok e"; cases "vmptrld_ok e")
     (simp_all add: set_vmcs_pointer_def Let_def nt_assert_fails_def vmx_vmclear_def vmx_vmptrld_def
      log_event_def)

lemma enter_vmx_operation_result:
  assumes "enter_vmx_operation e m = Inr (r, m')"
  shows "r = vmxon_ok e"
    and "vmx_operation m' = (vmxon_ok e \<or> vmx_operation m)"
    and "trace m' = trace m @ Vmxon (get_physical e (addr_vmxon e)) (vcpu_vmxon m')
                      # (if vmxon_ok e then [Invept invept_all_context (0, 0)] else [])"
  using assms by (auto simp: enter_vmx_operation_cases Let_def split: if_splits)

lemma set_vmcs_pointer_result:
  assumes "set_vmcs_pointer e m = Inr (r, m')"
  shows "r = (vmclear_ok e \<and> vmptrld_ok e)"
    and "vmx_operation m' = vmx_operation m"
    and "trace m' = trace m @ Vmclear (get_physical e (addr_vmcs e)) (vcpu_vmcs m')
                      # (if vmclear_ok e then [Vmptrld (get_physical e (addr_vmcs e)) (vcpu_vmcs m')]
                         else [])"
  using assms by (auto simp: set_vmcs_pointer_cases Let_def split: if_splits)

lemma enter_vmx_operation_total:
  assumes "dbg e \<longrightarrow> get_physical e (addr_vmxon e) mod 0x1000 = 0"
  shows "\<exists>m'. enter_vmx_operation e m = Inr (vmxon_ok e, m')"
  using assms by (simp add: enter_vmx_operation_cases Let_def)

lemma set_vmcs_pointer_total:
  assumes "dbg e \<longrightarrow> get_physical e (addr_vmcs e) mod 0x1000 = 0"
  shows "\<exists>m'. set_vmcs_pointer e m = Inr (vmclear_ok e \<and> vmptrld_ok e, m')"
  using assms by (simp add: set_vmcs_pointer_cases Let_def)

lemma vm_launch_result:
  "fst (vm_launch e m) = vm_launch_ok e"
  "trace (snd (vm_launch e m)) = trace m @ [Vm_launch]"
  "vmx_operation (snd (vm_launch e m)) = vmx_operation m"
  by (simp_all add: vm_launch_def Let_def)

text \<open>The events of a whole bring-up, by the step at which it stops.\<close>

lemma virtualize_issued:
  assumes "virtualize e m = Inr (r, m')"
  shows
    "(\<not> fst (enable_vmx_operation e m) \<and> \<not> r \<and> issued m m' = []
        \<and> vmx_operation m' = vmx_operation m)
     \<or> (fst (enable_vmx_operation e m) \<and> \<not> vmxon_ok e \<and> \<not> r
        \<and> (\<exists>p reg. issued m m' =
              [DbgPrint ''[hv] enabled vmx operation.\<newline>'' [], Vmxon p reg])
        \<and> vmx_operation m' = vmx_operation m)
     \<or> (fst (enable_vmx_operation e m) \<and> vmxon_ok e
        \<and> \<not> (vmclear_ok e \<and> vmptrld_ok e) \<and> \<not> r
        \<and> (\<exists>p reg evs. issued m m' =
              DbgPrint ''[hv] enabled vmx operation.\<newline>'' [] # Vmxon p reg # evs @ [Vmxoff]
              \<and> Vmxoff \<notin> set evs)
        \<and> \<not> vmx_operation m')
     \<or> (fst (enable_vmx_operation e m) \<and> vmxon_ok e \<and> vmclear_ok e \<and> vmptrld_ok e
        \<and> \<not> vm_launch_ok e \<and> \<not> r
        \<and> (\<exists>p reg evs. issued m m' =
              DbgPrint ''[hv] enabled vmx operation.\<newline>'' [] # Vmxon p reg # evs @ [Vmxoff]
              \<and> Vm_launch \<in> set evs \<and> Vmxoff \<notin> set evs)
        \<and> \<not> vmx_operation m')
     \<or> (fst (enable_vmx_operation e m) \<and> vmxon_ok e \<and> vmclear_ok e \<and> vmptrld_ok e
        \<and> vm_launch_ok e \<and> r
        \<and> (\<exists>p reg evs. issued m m' =
              DbgPrint ''[hv] enabled vmx operation.\<newline>'' [] # Vmxon p reg # evs
              \<and> Vm_launch \<in> set evs \<and> Vmxoff \<notin> set evs)
        \<and> vmx_operation m')"
proof (cases "enable_vmx_operation e m")
  case (Pair g m1)
  note en = Pair
  have f1: "trace m1 = trace m" "vmx_operation m1 = vmx_operation m"
    using enable_vmx_operation_frame [of e m] by (simp_all add: en)
  show ?thesis
  proof (cases g)
    case False
    with en assms f1 show ?thesis
      by (auto simp: virtualize_def issued_def)
  next
    case True
    note g = True
    define m2 where "m2 = dbg_print ''[hv] enabled vmx operation.\<newline>'' [] m1"
    have v1: "virtualize e m =
      (case enter_vmx_operation e m2 of
             Inl err \<Rightarrow> Inl err
           | Inr (False, m3) \<Rightarrow> Inr (False, m3)
           | Inr (True, m3) \<Rightarrow>
               let m4 = dbg_print ''[hv] entered vmx operation.\<newline>'' [] m3 in
               (case set_vmcs_pointer e m4 of
                  Inl err \<Rightarrow> Inl err
                | Inr (False, m5) \<Rightarrow> Inr (False, vmx_vmxoff m5)
                | Inr (True, m5) \<Rightarrow>
                    let m6 = dbg_print ''[hv] set vmcs pointer.\<newline>'' [] m5;
                        m7 = prepare_external_structures e m6;
                        m8 = dbg_print ''[hv] initialized external host structures.\<newline>'' [] m7;
                        m9 = write_vmcs_ctrl_fields e m8;
                        m10 = write_vmcs_host_fields e m9;
                        m11 = write_vmcs_guest_fields e m10;
                        m12 = dbg_print ''[hv] initialized the vmcs.\<newline>'' [] m11
                    in (case vm_launch e m12 of
                          (False, m13) \<Rightarrow>
                            let m14 = dbg_print ''[hv] vmlaunch failed, error = %lli.\<newline>''
                                        [vmx_vmread VMCS_VM_INSTRUCTION_ERROR m13] m13
                            in Inr (False, vmx_vmxoff m14)
                        | (True, m13) \<Rightarrow>
                            Inr (True, dbg_print ''[hv] virtualized cpu #%i\<newline>''
                                         [processor_index e] m13))))"
      by (simp add: virtualize_def en g m2_def)
    have t2: "trace m2 = trace m @ [DbgPrint ''[hv] enabled vmx operation.\<newline>'' []]"
      "vmx_operation m2 = vmx_operation m"
      by (simp_all add: m2_def f1)
    from assms v1 obtain b3 m3 where e3: "enter_vmx_operation e m2 = Inr (b3, m3)"
      by (cases "enter_vmx_operation e m2") auto
    note r3 = enter_vmx_operation_result [OF e3]
    show ?thesis
    proof (cases "vmxon_ok e")
      case False
      with assms v1 e3 r3 t2 en g show ?thesis
        by (auto simp: issued_def)
    next
      case True
      note on = True
      define m4 where "m4 = dbg_print ''[hv] entered vmx operation.\<newline>'' [] m3"
      have t4: "trace m4 = trace m @ [DbgPrint ''[hv] enabled vmx operation.\<newline>'' [],
                   Vmxon (get_physical e (addr_vmxon e)) (vcpu_vmxon m3),
                   Invept invept_all_context (0, 0),
                   DbgPrint ''[hv] entered vmx operation.\<newline>'' []]"
        "vmx_operation m4"
        using r3 on t2 by (simp_all add: m4_def)
      from assms v1 e3 r3 on obtain b5 m5 where e5: "set_vmcs_pointer e m4 = Inr (b5, m5)"
        by (cases "set_vmcs_pointer e m4") (auto simp: m4_def Let_def)
      note r5 = set_vmcs_pointer_result [OF e5]
      show ?thesis
      proof (cases b5)
        case False
        with assms v1 e3 r3 on e5 have "m' = vmx_vmxoff m5" "\<not> r"
          by (auto simp: m4_def Let_def)
        with r5 t4 False en g on show ?thesis
          by (auto simp: issued_def)
      next
        case True
        note ptr = True
        define m12 where "m12 = dbg_print ''[hv] initialized the vmcs.\<newline>'' []
          (write_vmcs_guest_fields e (write_vmcs_host_fields e (write_vmcs_ctrl_fields e
            (dbg_print ''[hv] initialized external host structures.\<newline>'' []
              (prepare_external_structures e (dbg_print ''[hv] set vmcs pointer.\<newline>'' [] m5))))))"
        obtain b13 m13 where e13: "vm_launch e m12 = (b13, m13)"
          by (cases "vm_launch e m12")
        have r13: "b13 = vm_launch_ok e" "trace m13 = trace m12 @ [Vm_launch]"
          "vmx_operation m13 = vmx_operation m12"
          using vm_launch_result [of e m12] by (simp_all add: e13)
        have t12: "trace m12 = trace m5 @ [DbgPrint ''[hv] set vmcs pointer.\<newline>'' [],
            DbgPrint ''[hv] initialized external host structures.\<newline>'' [],
            DbgPrint ''[hv] initialized the vmcs.\<newline>'' []]"
          "vmx_operation m12 = vmx_operation m5"
          by (simp_all add: m12_def)
        have res: "virtualize e m =
           (if b13 then Inr (True, dbg_print ''[hv] virtualized cpu #%i\<newline>''
                                         [processor_index e] m13)
            else Inr (False, vmx_vmxoff (dbg_print ''[hv] vmlaunch failed, error = %lli.\<newline>''
                                        [vmx_vmread VMCS_VM_INSTRUCTION_ERROR m13] m13)))"
          using e3 r3 on e5 ptr e13
          by (simp add: v1 m4_def [symmetric] Let_def m12_def [symmetric])
        show ?thesis
        proof (cases b13)
          case False
          with assms res have "m' = vmx_vmxoff (dbg_print ''[hv] vmlaunch failed, error = %lli.\<newline>''
                                        [vmx_vmread VMCS_VM_INSTRUCTION_ERROR m13] m13)" "\<not> r"
            by auto
          with r13 t12 r5 t4 ptr False en g on show ?thesis
            by (auto simp: issued_def)
        next
          case True
          with assms res have "m' = dbg_print ''[hv] virtualized cpu #%i\<newline>''
                                         [processor_index e] m13" "r"
            by auto
          with r13 t12 r5 t4 ptr True en g on show ?thesis
            by (auto simp: issued_def)
        qed
      qed
    qed
  qed
qed

text \<open>
  Unless an alignment assertion stops a checked build, \<open>virtualize\<close> returns, and it
  returns true exactly when the gate is open and every VMX instruction succeeds.
\<close>

lemma virtualize_total:
  assumes "dbg e \<longrightarrow> get_physical e (addr_vmxon e) mod 0x1000 = 0
                   \<and> get_physical e (addr_vmcs e) mod 0x1000 = 0"
  shows "\<exists>m'. virtualize e m =
           Inr (fst (enable_vmx_operation e m) \<and> vmxon_ok e \<and> vmclear_ok e \<and> vmptrld_ok e
                  \<and> vm_launch_ok e, m')"
proof (cases "enable_vmx_operation e m")
  case (Pair g m1)
  show ?thesis
  proof (cases g)
    case False
    with Pair show ?thesis by (simp add: virtualize_def)
  next
    case True
    note g = True
    have "dbg e \<longrightarrow> get_physical e (addr_vmxon e) mod 0x1000 = 0"
      using assms by simp
    from enter_vmx_operation_total [OF this] obtain m3 where
      e3: "enter_vmx_operation e (dbg_print ''[hv] enabled vmx operation.\<newline>'' [] m1)
             = Inr (vmxon_ok e, m3)" ..
    show ?thesis
    proof (cases "vmxon_ok e")
      case False
      with Pair g e3 show ?thesis by (simp add: virtualize_def)
    next
      case True
      note on = True
      have "dbg e \<longrightarrow> get_physical e (addr_vmcs e) mod 0x1000 = 0"
        using assms by simp
      from set_vmcs_pointer_total [OF this] obtain m5 where
        e5: "set_vmcs_pointer e (dbg_print ''[hv] entered vmx operation.\<newline>'' [] m3)
               = Inr (vmclear_ok e \<and> vmptrld_ok e, m5)" ..
      show ?thesis
      proof (cases "vmclear_ok e \<and> vmptrld_ok e")
        case False
        with Pair g e3 on e5 show ?thesis by (auto simp: virtualize_def)
      next
        case True
        with Pair g e3 on e5 show ?thesis
          by (cases "vm_launch_ok e")
             (simp_all add: virtualize_def Let_def vm_launch_def)
      qed
    qed
  qed
qed

subsection \<open>Dispatcher and interrupt bridge\<close>

lemma handle_vm_exit_routed:
  fixes h :: "'ctx exit_handlers"
  shows "basic_exit_reason (ucast (vmx_vmread VMCS_EXIT_REASON m)) = VMX_EXIT_REASON_MOV_CR
           \<Longrightarrow> handle_vm_exit h ctx m = handle_mov_cr h ctx m"
    and "basic_exit_reason (ucast (vmx_vmread VMCS_EXIT_REASON m)) = VMX_EXIT_REASON_EXECUTE_CPUID
           \<Longrightarrow> handle_vm_exit h ctx m = emulate_cpuid h ctx m"
    and "basic_exit_reason (ucast (vmx_vmread VMCS_EXIT_REASON m)) = VMX_EXIT_REASON_EXECUTE_RDMSR
           \<Longrightarrow> handle_vm_exit h ctx m = emulate_rdmsr h ctx m"
    and "basic_exit_reason (ucast (vmx_vmread VMCS_EXIT_REASON m)) = VMX_EXIT_REASON_EXECUTE_WRMSR
           \<Longrightarrow> handle_vm_exit h ctx m = emulate_wrmsr h ctx m"
    and "basic_exit_reason (ucast (vmx_vmread VMCS_EXIT_REASON m))
           = VMX_EXIT_REASON_EXCEPTION_OR_NMI
           \<Longrightarrow> handle_vm_exit h ctx m = handle_exception_or_nmi h ctx m"
    and "basic_exit_reason (ucast (vmx_vmread VMCS_EXIT_REASON m)) = VMX_EXIT_REASON_NMI_WINDOW
           \<Longrightarrow> handle_vm_exit h ctx m = handle_nmi_window h ctx m"
  by (simp_all add: handle_vm_exit_def Let_def exit_reason_defs)

text \<open>What a run with the probe handlers prints tells which branch was taken.\<close>

lemma probe_handlers_trace:
  "trace (snd (handle_vm_exit probe_handlers ctx m)) = trace m @
     (if basic_exit_reason (ucast (vmx_vmread VMCS_EXIT_REASON m)) = VMX_EXIT_REASON_MOV_CR
        then [DbgPrint ''handle_mov_cr'' []]
      else if basic_exit_reason (ucast (vmx_vmread VMCS_EXIT_REASON m))
                = VMX_EXIT_REASON_EXECUTE_CPUID
        then [DbgPrint ''emulate_cpuid'' []]
      else if basic_exit_reason (ucast (vmx_vmread VMCS_EXIT_REASON m))
                = VMX_EXIT_REASON_EXECUTE_RDMSR
        then [DbgPrint ''emulate_rdmsr'' []]
      else if basic_exit_reason (ucast (vmx_vmread VMCS_EXIT_REASON m))
                = VMX_EXIT_REASON_EXECUTE_WRMSR
        then [DbgPrint ''emulate_wrmsr'' []]
      else if basic_exit_reason (ucast (vmx_vmread VMCS_EXIT_REASON m))
                = VMX_EXIT_REASON_EXCEPTION_OR_NMI
        then [DbgPrint ''handle_exception_or_nmi'' []]
      else if basic_exit_reason (ucast (vmx_vmread VMCS_EXIT_REASON m))
                = VMX_EXIT_REASON_NMI_WINDOW
        then [DbgPrint ''handle_nmi_window'' []]
      else [Debugbreak,
            DbgPrint ''[hv] vm-exit occurred. RIP=0x%zX.\<newline>''
              [vmx_vmread VMCS_GUEST_RIP m]])"
  by (simp add: handle_vm_exit_def Let_def probe_handlers_def dbg_print_def debugbreak_def
      log_event_def vmx_vmread_def)

lemma probe_handlers_marks:
  "trace (snd (handle_mov_cr probe_handlers ctx m)) = trace m @ [DbgPrint ''handle_mov_cr'' []]"
  "trace (snd (emulate_cpuid probe_handlers ctx m)) = trace m @ [DbgPrint ''emulate_cpuid'' []]"
  "trace (snd (emulate_rdmsr probe_handlers ctx m)) = trace m @ [DbgPrint ''emulate_rdmsr'' []]"
  "trace (snd (emulate_wrmsr probe_handlers ctx m)) = trace m @ [DbgPrint ''emulate_wrmsr'' []]"
  "trace (snd (handle_exception_or_nmi probe_handlers ctx m))
     = trace m @ [DbgPrint ''handle_exception_or_nmi'' []]"
  "trace (snd (handle_nmi_window probe_handlers ctx m))
     = trace m @ [DbgPrint ''handle_nmi_window'' []]"
  by (simp_all add: probe_handlers_def dbg_print_def log_event_def)

lemma vm_exit_default_branch:
  assumes "basic_exit_reason (ucast (vmx_vmread VMCS_EXIT_REASON m)) \<notin>
             {VMX_EXIT_REASON_MOV_CR, VMX_EXIT_REASON_EXECUTE_CPUID,
              VMX_EXIT_REASON_EXECUTE_RDMSR, VMX_EXIT_REASON_EXECUTE_WRMSR,
              VMX_EXIT_REASON_EXCEPTION_OR_NMI, VMX_EXIT_REASON_NMI_WINDOW}"
  shows "handle_vm_exit h ctx m =
           (ctx, m\<lparr>trace := trace m @ [Debugbreak,
                     DbgPrint ''[hv] vm-exit occurred. RIP=0x%zX.\<newline>''
                       [vmx_vmread VMCS_GUEST_RIP m]]\<rparr>)"
  using assms
  by (simp add: handle_vm_exit_def Let_def debugbreak_def dbg_print_def log_event_def
      vmx_vmread_def)

lemma host_interrupt_on_nmi:
  "vector frame = nmi \<Longrightarrow>
     handle_host_interrupt frame m =
       vmx_vmwrite VMCS_CTRL_PROCESSOR_BASED_VM_EXECUTION_CONTROLS
         (set_bit IA32_VMX_PROCBASED_CTLS_NMI_WINDOW_EXITING_BIT
            (vmx_vmread VMCS_CTRL_PROCESSOR_BASED_VM_EXECUTION_CONTROLS m)) m"
  by (simp add: handle_host_interrupt_def Let_def read_ctrl_proc_based_def
      write_ctrl_proc_based_def)

lemma host_interrupt_on_other:
  "vector frame \<noteq> nmi \<Longrightarrow> handle_host_interrupt frame m = m"
  by (simp add: handle_host_interrupt_def)

subsection \<open>The concrete core\<close>

lemma demo_gate_open: "fst (enable_vmx_operation demo_platform demo_machine)"
  by (simp add: enable_vmx_operation_true_iff demo_platform_def demo_msr_def readmsr_def
      virtual_machine_extensions_def lock_bit_def enable_vmx_outside_smx_def msr_defs)

lemma demo_revision: "vmcs_revision_id (readmsr demo_platform IA32_VMX_BASIC) = 4"
  by (simp add: vmcs_revision_id_def readmsr_def demo_platform_def demo_msr_def msr_defs)

lemma demo_aligned:
  "get_physical demo_platform (addr_vmxon demo_platform) mod 0x1000 = 0"
  "get_physical demo_platform (addr_vmcs demo_platform) mod 0x1000 = 0"
  by (simp_all add: demo_platform_def)

lemma demo_enter: "enter_vmx_operation demo_platform demo_machine = Inr (True, demo_entered)"
  by (simp add: enter_vmx_operation_cases Let_def demo_revision demo_entered_def
      invept_all_context_def)
     (simp add: demo_platform_def demo_machine_def)

lemma demo_load: "set_vmcs_pointer demo_platform demo_machine = Inr (True, demo_loaded)"
  by (simp add: set_vmcs_pointer_cases Let_def demo_revision demo_loaded_def)
     (simp add: demo_platform_def demo_machine_def)

lemma demo_clear_fails:
  "set_vmcs_pointer (demo_platform\<lparr>vmclear_ok := False\<rparr>) demo_machine
     = Inr (False, demo_clear_failed)"
  using demo_revision
  by (simp add: set_vmcs_pointer_cases Let_def demo_clear_failed_def readmsr_def)
     (simp add: demo_platform_def demo_machine_def)

lemma demo_cpuid_reason:
  "basic_exit_reason (ucast (vmx_vmread VMCS_EXIT_REASON demo_cpuid_exit))
     = VMX_EXIT_REASON_EXECUTE_CPUID"
  by (simp add: demo_cpuid_exit_def vmx_vmread_vmwrite basic_exit_reason_def exit_reason_defs)

lemma demo_vmcall_reason:
  "basic_exit_reason (ucast (vmx_vmread VMCS_EXIT_REASON demo_vmcall_exit)) = 18"
  by (simp add: demo_vmcall_exit_def vmx_vmread_vmwrite basic_exit_reason_def)

section \<open>Feature and mode gate\<close>

text \<open>
  C1. The gate fails closed: when the CPUID feature bit is absent, or the
  feature-control register lacks the lock bit or VMX-outside-SMX, \<open>enable_vmx_operation\<close>
  returns false and the whole machine state, control registers included, is unchanged.
  When it returns true, CR0 is the old CR0 ORed with its FIXED0 mask and ANDed with its
  FIXED1 mask, and CR4 is the old CR4 with the VMX-enable flag ORed in, ORed with its
  FIXED0 mask and ANDed with its FIXED1 mask. No bit that FIXED1 forbids is then set. On
  a supported core the masks are consistent: FIXED1 allows every bit that FIXED0
  requires, and the CR4 FIXED1 mask allows the VMX-enable bit, which VMX operation
  requires. On such a core every FIXED0 bit is set in CR0 and CR4 and the VMX-enable bit
  of CR4 is set.
\<close>

theorem enable_vmx_operation_gate:
  "(\<not> virtual_machine_extensions (cpuid_leaf e 1)
      \<or> \<not> lock_bit (readmsr e IA32_FEATURE_CONTROL)
      \<or> \<not> enable_vmx_outside_smx (readmsr e IA32_FEATURE_CONTROL)
    \<longrightarrow> enable_vmx_operation e m = (False, m))
   \<and> (fst (enable_vmx_operation e m) \<longrightarrow>
        cr0 (snd (enable_vmx_operation e m)) =
          (cr0 m OR readmsr e IA32_VMX_CR0_FIXED0) AND readmsr e IA32_VMX_CR0_FIXED1
      \<and> cr4 (snd (enable_vmx_operation e m)) =
          ((cr4 m OR CR4_VMX_ENABLE_FLAG) OR readmsr e IA32_VMX_CR4_FIXED0)
            AND readmsr e IA32_VMX_CR4_FIXED1
      \<and> cr0 (snd (enable_vmx_operation e m)) AND NOT (readmsr e IA32_VMX_CR0_FIXED1) = 0
      \<and> cr4 (snd (enable_vmx_operation e m)) AND NOT (readmsr e IA32_VMX_CR4_FIXED1) = 0
      \<and> (readmsr e IA32_VMX_CR0_FIXED0 AND readmsr e IA32_VMX_CR0_FIXED1
            = readmsr e IA32_VMX_CR0_FIXED0
          \<longrightarrow> cr0 (snd (enable_vmx_operation e m)) AND readmsr e IA32_VMX_CR0_FIXED0
                = readmsr e IA32_VMX_CR0_FIXED0)
      \<and> (readmsr e IA32_VMX_CR4_FIXED0 AND readmsr e IA32_VMX_CR4_FIXED1
            = readmsr e IA32_VMX_CR4_FIXED0
          \<longrightarrow> cr4 (snd (enable_vmx_operation e m)) AND readmsr e IA32_VMX_CR4_FIXED0
                = readmsr e IA32_VMX_CR4_FIXED0)
      \<and> (readmsr e IA32_VMX_CR4_FIXED1 AND CR4_VMX_ENABLE_FLAG = CR4_VMX_ENABLE_FLAG
          \<longrightarrow> cr4 (snd (enable_vmx_operation e m)) AND CR4_VMX_ENABLE_FLAG
                = CR4_VMX_ENABLE_FLAG))"
proof (intro conjI impI)
  assume "\<not> virtual_machine_extensions (cpuid_leaf e 1)
      \<or> \<not> lock_bit (readmsr e IA32_FEATURE_CONTROL)
      \<or> \<not> enable_vmx_outside_smx (readmsr e IA32_FEATURE_CONTROL)"
  then show "enable_vmx_operation e m = (False, m)"
    by (rule enable_vmx_operation_fail)
next
  assume ok: "fst (enable_vmx_operation e m)"
  note s = enable_vmx_operation_success [OF ok]
  show c0: "cr0 (snd (enable_vmx_operation e m)) =
          (cr0 m OR readmsr e IA32_VMX_CR0_FIXED0) AND readmsr e IA32_VMX_CR0_FIXED1"
    by (simp add: s)
  show c4: "cr4 (snd (enable_vmx_operation e m)) =
          ((cr4 m OR CR4_VMX_ENABLE_FLAG) OR readmsr e IA32_VMX_CR4_FIXED0)
            AND readmsr e IA32_VMX_CR4_FIXED1"
    by (simp add: s)
  show "cr0 (snd (enable_vmx_operation e m)) AND NOT (readmsr e IA32_VMX_CR0_FIXED1) = 0"
    unfolding c0 by (rule fixed1_respected)
  show "cr4 (snd (enable_vmx_operation e m)) AND NOT (readmsr e IA32_VMX_CR4_FIXED1) = 0"
    unfolding c4 by (rule fixed1_respected)
  {
    assume "readmsr e IA32_VMX_CR0_FIXED0 AND readmsr e IA32_VMX_CR0_FIXED1
              = readmsr e IA32_VMX_CR0_FIXED0"
    then show "cr0 (snd (enable_vmx_operation e m)) AND readmsr e IA32_VMX_CR0_FIXED0
                 = readmsr e IA32_VMX_CR0_FIXED0"
      unfolding c0 by (rule fixed0_respected)
  }
  {
    assume "readmsr e IA32_VMX_CR4_FIXED0 AND readmsr e IA32_VMX_CR4_FIXED1
              = readmsr e IA32_VMX_CR4_FIXED0"
    then show "cr4 (snd (enable_vmx_operation e m)) AND readmsr e IA32_VMX_CR4_FIXED0
                 = readmsr e IA32_VMX_CR4_FIXED0"
      unfolding c4 by (rule fixed0_respected)
  }
  {
    assume "readmsr e IA32_VMX_CR4_FIXED1 AND CR4_VMX_ENABLE_FLAG = CR4_VMX_ENABLE_FLAG"
    then show "cr4 (snd (enable_vmx_operation e m)) AND CR4_VMX_ENABLE_FLAG
                 = CR4_VMX_ENABLE_FLAG"
      unfolding c4 by (rule flag_after_masks [THEN iffD2])
  }
qed

text \<open>
  The masks of the concrete core are consistent and its gate opens: CR4 gains the
  VMX-enable bit. With the feature-control register cleared the gate fails closed.
\<close>

theorem enable_vmx_operation_gate_witness:
  "fst (enable_vmx_operation demo_platform demo_machine)
   \<and> readmsr demo_platform IA32_VMX_CR0_FIXED0 AND readmsr demo_platform IA32_VMX_CR0_FIXED1
       = readmsr demo_platform IA32_VMX_CR0_FIXED0
   \<and> readmsr demo_platform IA32_VMX_CR4_FIXED0 AND readmsr demo_platform IA32_VMX_CR4_FIXED1
       = readmsr demo_platform IA32_VMX_CR4_FIXED0
   \<and> readmsr demo_platform IA32_VMX_CR4_FIXED1 AND CR4_VMX_ENABLE_FLAG = CR4_VMX_ENABLE_FLAG
   \<and> cr4 demo_machine AND CR4_VMX_ENABLE_FLAG = 0
   \<and> cr0 (snd (enable_vmx_operation demo_platform demo_machine)) = 0x80050033
   \<and> cr4 (snd (enable_vmx_operation demo_platform demo_machine)) = 0x3526F8
   \<and> cr4 (snd (enable_vmx_operation demo_platform demo_machine)) AND CR4_VMX_ENABLE_FLAG
       = CR4_VMX_ENABLE_FLAG
   \<and> \<not> lock_bit (readmsr (demo_platform\<lparr>msr := (\<lambda>n. 0)\<rparr>) IA32_FEATURE_CONTROL)
   \<and> enable_vmx_operation (demo_platform\<lparr>msr := (\<lambda>n. 0)\<rparr>) demo_machine
       = (False, demo_machine)"
  using enable_vmx_operation_gate [of demo_platform demo_machine]
        enable_vmx_operation_gate [of "demo_platform\<lparr>msr := (\<lambda>n. 0)\<rparr>" demo_machine]
        demo_gate_open
  by (simp add: demo_platform_def demo_machine_def demo_msr_def readmsr_def msr_defs
      CR4_VMX_ENABLE_FLAG_def lock_bit_def)

section \<open>Rollback of root operation\<close>

text \<open>
  C2. Whenever \<open>virtualize\<close> returns true, the launch succeeded (and no VMXOFF was
  issued). Whenever it returns false on a path on which VMXON was issued and succeeded,
  which are the paths where \<open>set_vmcs_pointer\<close> returns false or \<open>__vm_launch\<close> reports
  failure, the last instruction it issued is VMXOFF and the core is out of VMX operation.
  (A failed alignment assertion of a checked build stops the program; it is not a return.)
\<close>

theorem virtualize_exits_root_on_failure:
  assumes "virtualize e m = Inr (r, m')"
  shows "(r \<longrightarrow> vm_launch_ok e \<and> Vm_launch \<in> set (issued m m')
              \<and> Vmxoff \<notin> set (issued m m'))
       \<and> (\<not> r \<and> vmxon_ok e \<and> (\<exists>p reg. Vmxon p reg \<in> set (issued m m')) \<longrightarrow>
            issued m m' \<noteq> [] \<and> last (issued m m') = Vmxoff \<and> \<not> vmx_operation m')"
  using virtualize_issued [OF assms] by auto

text \<open>
  A failed launch and a failed VMPTRLD on the concrete core both end with VMXOFF; the
  bring-up that succeeds issues none.
\<close>

theorem virtualize_exits_root_on_failure_witness:
  "(\<exists>m'. virtualize (demo_platform\<lparr>vm_launch_ok := False\<rparr>) demo_machine = Inr (False, m')
         \<and> (\<exists>p reg. Vmxon p reg \<in> set (issued demo_machine m'))
         \<and> last (issued demo_machine m') = Vmxoff
         \<and> \<not> vmx_operation m')
   \<and> (\<exists>m'. virtualize (demo_platform\<lparr>vmptrld_ok := False\<rparr>) demo_machine = Inr (False, m')
         \<and> (\<exists>p reg. Vmxon p reg \<in> set (issued demo_machine m'))
         \<and> last (issued demo_machine m') = Vmxoff
         \<and> \<not> vmx_operation m')
   \<and> (\<exists>m'. virtualize demo_platform demo_machine = Inr (True, m')
         \<and> Vmxoff \<notin> set (issued demo_machine m'))"
proof (intro conjI)
  let ?P = "demo_platform\<lparr>vm_launch_ok := False\<rparr>"
  have gate: "fst (enable_vmx_operation ?P demo_machine)"
    using demo_gate_open by (simp add: enable_vmx_operation_true_iff readmsr_def)
  have flags: "vmxon_ok ?P" "vmclear_ok ?P" "vmptrld_ok ?P" "\<not> vm_launch_ok ?P"
    by (simp_all add: demo_platform_def)
  have "dbg ?P \<longrightarrow> get_physical ?P (addr_vmxon ?P) mod 0x1000 = 0
                   \<and> get_physical ?P (addr_vmcs ?P) mod 0x1000 = 0"
    using demo_aligned by simp
  from virtualize_total [OF this, of demo_machine] gate flags
  obtain m' where v: "virtualize ?P demo_machine = Inr (False, m')"
    by auto
  from virtualize_issued [OF v] gate flags
  have on: "\<exists>p reg. Vmxon p reg \<in> set (issued demo_machine m')"
    by fastforce
  with virtualize_exits_root_on_failure [OF v] flags v
  show "\<exists>m'. virtualize ?P demo_machine = Inr (False, m')
         \<and> (\<exists>p reg. Vmxon p reg \<in> set (issued demo_machine m'))
         \<and> last (issued demo_machine m') = Vmxoff
         \<and> \<not> vmx_operation m'"
    by auto
next
  let ?P = "demo_platform\<lparr>vmptrld_ok := False\<rparr>"
  have gate: "fst (enable_vmx_operation ?P demo_machine)"
    using demo_gate_open by (simp add: enable_vmx_operation_true_iff readmsr_def)
  have flags: "vmxon_ok ?P" "vmclear_ok ?P" "\<not> vmptrld_ok ?P"
    by (simp_all add: demo_platform_def)
  have "dbg ?P \<longrightarrow> get_physical ?P (addr_vmxon ?P) mod 0x1000 = 0
                   \<and> get_physical ?P (addr_vmcs ?P) mod 0x1000 = 0"
    using demo_aligned by simp
  from virtualize_total [OF this, of demo_machine] gate flags
  obtain m' where v: "virtualize ?P demo_machine = Inr (False, m')"
    by auto
  from virtualize_issued [OF v] gate flags
  have on: "\<exists>p reg. Vmxon p reg \<in> set (issued demo_machine m')"
    by fastforce
  with virtualize_exits_root_on_failure [OF v] flags v
  show "\<exists>m'. virtualize ?P demo_machine = Inr (False, m')
         \<and> (\<exists>p reg. Vmxon p reg \<in> set (issued demo_machine m'))
         \<and> last (issued demo_machine m') = Vmxoff
         \<and> \<not> vmx_operation m'"
    by auto
next
  have flags: "vmxon_ok demo_platform" "vmclear_ok demo_platform" "vmptrld_ok demo_platform"
    "vm_launch_ok demo_platform"
    by (simp_all add: demo_platform_def)
  have "dbg demo_platform \<longrightarrow> get_physical demo_platform (addr_vmxon demo_platform) mod 0x1000 = 0
                   \<and> get_physical demo_platform (addr_vmcs demo_platform) mod 0x1000 = 0"
    using demo_aligned by simp
  from virtualize_total [OF this, of demo_machine] demo_gate_open flags
  obtain m' where v: "virtualize demo_platform demo_machine = Inr (True, m')"
    by auto
  with virtualize_exits_root_on_failure [OF v]
  show "\<exists>m'. virtualize demo_platform demo_machine = Inr (True, m')
         \<and> Vmxoff \<notin> set (issued demo_machine m')"
    by auto
qed

section \<open>Exit routing\<close>

text \<open>
  C3. For every exit reason \<open>handle_vm_exit\<close> is exactly one call of one external
  handler when the basic reason is one of the six routed ones: its result is the result
  of that handler on the context and machine it was given, whatever the handlers are. CR
  move goes to \<open>handle_mov_cr\<close>, CPUID to \<open>emulate_cpuid\<close>, RDMSR to \<open>emulate_rdmsr\<close>,
  WRMSR to \<open>emulate_wrmsr\<close>, exception or NMI to \<open>handle_exception_or_nmi\<close> and NMI window
  to \<open>handle_nmi_window\<close>, and no other reason goes to any of them: the run is the call of
  a given handler for all handlers only when the reason is that handler's. The fatal
  default branch (breakpoint and message, no handler) is the run exactly when the basic
  reason is none of the six.
\<close>

theorem handle_vm_exit_routing:
  fixes h :: "'ctx exit_handlers"
  defines "reason \<equiv> \<lambda>m. basic_exit_reason (ucast (vmx_vmread VMCS_EXIT_REASON m))"
  defines "fatal \<equiv> \<lambda>m. m\<lparr>trace := trace m @ [Debugbreak,
                     DbgPrint ''[hv] vm-exit occurred. RIP=0x%zX.\<newline>''
                       [vmx_vmread VMCS_GUEST_RIP m]]\<rparr>"
  shows
    "(reason m = VMX_EXIT_REASON_MOV_CR \<longrightarrow> handle_vm_exit h ctx m = handle_mov_cr h ctx m)
     \<and> (reason m = VMX_EXIT_REASON_EXECUTE_CPUID \<longrightarrow>
          handle_vm_exit h ctx m = emulate_cpuid h ctx m)
     \<and> (reason m = VMX_EXIT_REASON_EXECUTE_RDMSR \<longrightarrow>
          handle_vm_exit h ctx m = emulate_rdmsr h ctx m)
     \<and> (reason m = VMX_EXIT_REASON_EXECUTE_WRMSR \<longrightarrow>
          handle_vm_exit h ctx m = emulate_wrmsr h ctx m)
     \<and> (reason m = VMX_EXIT_REASON_EXCEPTION_OR_NMI \<longrightarrow>
          handle_vm_exit h ctx m = handle_exception_or_nmi h ctx m)
     \<and> (reason m = VMX_EXIT_REASON_NMI_WINDOW \<longrightarrow>
          handle_vm_exit h ctx m = handle_nmi_window h ctx m)
     \<and> (reason m \<notin> {VMX_EXIT_REASON_MOV_CR, VMX_EXIT_REASON_EXECUTE_CPUID,
                      VMX_EXIT_REASON_EXECUTE_RDMSR, VMX_EXIT_REASON_EXECUTE_WRMSR,
                      VMX_EXIT_REASON_EXCEPTION_OR_NMI, VMX_EXIT_REASON_NMI_WINDOW} \<longrightarrow>
          handle_vm_exit h ctx m = (ctx, fatal m))
     \<and> ((\<forall>(g :: 'ctx exit_handlers) c. handle_vm_exit g c m = handle_mov_cr g c m)
          \<longrightarrow> reason m = VMX_EXIT_REASON_MOV_CR)
     \<and> ((\<forall>(g :: 'ctx exit_handlers) c. handle_vm_exit g c m = emulate_cpuid g c m)
          \<longrightarrow> reason m = VMX_EXIT_REASON_EXECUTE_CPUID)
     \<and> ((\<forall>(g :: 'ctx exit_handlers) c. handle_vm_exit g c m = emulate_rdmsr g c m)
          \<longrightarrow> reason m = VMX_EXIT_REASON_EXECUTE_RDMSR)
     \<and> ((\<forall>(g :: 'ctx exit_handlers) c. handle_vm_exit g c m = emulate_wrmsr g c m)
          \<longrightarrow> reason m = VMX_EXIT_REASON_EXECUTE_WRMSR)
     \<and> ((\<forall>(g :: 'ctx exit_handlers) c. handle_vm_exit g c m = handle_exception_or_nmi g c m)
          \<longrightarrow> reason m = VMX_EXIT_REASON_EXCEPTION_OR_NMI)
     \<and> ((\<forall>(g :: 'ctx exit_handlers) c. handle_vm_exit g c m = handle_nmi_window g c m)
          \<longrightarrow> reason m = VMX_EXIT_REASON_NMI_WINDOW)
     \<and> ((\<forall>(g :: 'ctx exit_handlers) c. handle_vm_exit g c m = (c, fatal m))
          \<longrightarrow> reason m \<notin> {VMX_EXIT_REASON_MOV_CR, VMX_EXIT_REASON_EXECUTE_CPUID,
                           VMX_EXIT_REASON_EXECUTE_RDMSR, VMX_EXIT_REASON_EXECUTE_WRMSR,
                           VMX_EXIT_REASON_EXCEPTION_OR_NMI, VMX_EXIT_REASON_NMI_WINDOW})"
proof -
  let ?p = "probe_handlers :: 'ctx exit_handlers"
  note t = probe_handlers_trace [of "undefined :: 'ctx" m]
  have routed:
    "reason m = VMX_EXIT_REASON_MOV_CR \<longrightarrow> handle_vm_exit h ctx m = handle_mov_cr h ctx m"
    "reason m = VMX_EXIT_REASON_EXECUTE_CPUID \<longrightarrow> handle_vm_exit h ctx m = emulate_cpuid h ctx m"
    "reason m = VMX_EXIT_REASON_EXECUTE_RDMSR \<longrightarrow> handle_vm_exit h ctx m = emulate_rdmsr h ctx m"
    "reason m = VMX_EXIT_REASON_EXECUTE_WRMSR \<longrightarrow> handle_vm_exit h ctx m = emulate_wrmsr h ctx m"
    "reason m = VMX_EXIT_REASON_EXCEPTION_OR_NMI \<longrightarrow>
       handle_vm_exit h ctx m = handle_exception_or_nmi h ctx m"
    "reason m = VMX_EXIT_REASON_NMI_WINDOW \<longrightarrow> handle_vm_exit h ctx m = handle_nmi_window h ctx m"
    unfolding reason_def by (simp_all add: handle_vm_exit_routed)
  have dflt: "reason m \<notin> {VMX_EXIT_REASON_MOV_CR, VMX_EXIT_REASON_EXECUTE_CPUID,
                      VMX_EXIT_REASON_EXECUTE_RDMSR, VMX_EXIT_REASON_EXECUTE_WRMSR,
                      VMX_EXIT_REASON_EXCEPTION_OR_NMI, VMX_EXIT_REASON_NMI_WINDOW} \<longrightarrow>
          handle_vm_exit h ctx m = (ctx, fatal m)"
    unfolding reason_def fatal_def by (simp add: vm_exit_default_branch)
  have c1: "reason m = VMX_EXIT_REASON_MOV_CR"
    if "\<forall>(g :: 'ctx exit_handlers) c. handle_vm_exit g c m = handle_mov_cr g c m"
  proof -
    from that have "handle_vm_exit ?p undefined m = handle_mov_cr ?p undefined m" by blast
    then have "trace (snd (handle_vm_exit ?p undefined m))
        = trace m @ [DbgPrint ''handle_mov_cr'' []]"
      by (simp add: probe_handlers_marks)
    then show ?thesis
      unfolding t by (simp add: exit_reason_defs reason_def split: if_splits)
  qed
  have c2: "reason m = VMX_EXIT_REASON_EXECUTE_CPUID"
    if "\<forall>(g :: 'ctx exit_handlers) c. handle_vm_exit g c m = emulate_cpuid g c m"
  proof -
    from that have "handle_vm_exit ?p undefined m = emulate_cpuid ?p undefined m" by blast
    then have "trace (snd (handle_vm_exit ?p undefined m))
        = trace m @ [DbgPrint ''emulate_cpuid'' []]"
      by (simp add: probe_handlers_marks)
    then show ?thesis
      unfolding t by (simp add: exit_reason_defs reason_def split: if_splits)
  qed
  have c3: "reason m = VMX_EXIT_REASON_EXECUTE_RDMSR"
    if "\<forall>(g :: 'ctx exit_handlers) c. handle_vm_exit g c m = emulate_rdmsr g c m"
  proof -
    from that have "handle_vm_exit ?p undefined m = emulate_rdmsr ?p undefined m" by blast
    then have "trace (snd (handle_vm_exit ?p undefined m))
        = trace m @ [DbgPrint ''emulate_rdmsr'' []]"
      by (simp add: probe_handlers_marks)
    then show ?thesis
      unfolding t by (simp add: exit_reason_defs reason_def split: if_splits)
  qed
  have c4: "reason m = VMX_EXIT_REASON_EXECUTE_WRMSR"
    if "\<forall>(g :: 'ctx exit_handlers) c. handle_vm_exit g c m = emulate_wrmsr g c m"
  proof -
    from that have "handle_vm_exit ?p undefined m = emulate_wrmsr ?p undefined m" by blast
    then have "trace (snd (handle_vm_exit ?p undefined m))
        = trace m @ [DbgPrint ''emulate_wrmsr'' []]"
      by (simp add: probe_handlers_marks)
    then show ?thesis
      unfolding t by (simp add: exit_reason_defs reason_def split: if_splits)
  qed
  have c5: "reason m = VMX_EXIT_REASON_EXCEPTION_OR_NMI"
    if "\<forall>(g :: 'ctx exit_handlers) c. handle_vm_exit g c m = handle_exception_or_nmi g c m"
  proof -
    from that have "handle_vm_exit ?p undefined m = handle_exception_or_nmi ?p undefined m"
      by blast
    then have "trace (snd (handle_vm_exit ?p undefined m))
        = trace m @ [DbgPrint ''handle_exception_or_nmi'' []]"
      by (simp add: probe_handlers_marks)
    then show ?thesis
      unfolding t by (simp add: exit_reason_defs reason_def split: if_splits)
  qed
  have c6: "reason m = VMX_EXIT_REASON_NMI_WINDOW"
    if "\<forall>(g :: 'ctx exit_handlers) c. handle_vm_exit g c m = handle_nmi_window g c m"
  proof -
    from that have "handle_vm_exit ?p undefined m = handle_nmi_window ?p undefined m" by blast
    then have "trace (snd (handle_vm_exit ?p undefined m))
        = trace m @ [DbgPrint ''handle_nmi_window'' []]"
      by (simp add: probe_handlers_marks)
    then show ?thesis
      unfolding t by (simp add: exit_reason_defs reason_def split: if_splits)
  qed
  have c7: "reason m \<notin> {VMX_EXIT_REASON_MOV_CR, VMX_EXIT_REASON_EXECUTE_CPUID,
                           VMX_EXIT_REASON_EXECUTE_RDMSR, VMX_EXIT_REASON_EXECUTE_WRMSR,
                           VMX_EXIT_REASON_EXCEPTION_OR_NMI, VMX_EXIT_REASON_NMI_WINDOW}"
    if "\<forall>(g :: 'ctx exit_handlers) c. handle_vm_exit g c m = (c, fatal m)"
  proof -
    from that have "handle_vm_exit ?p undefined m = (undefined, fatal m)" by blast
    then have "trace (snd (handle_vm_exit ?p undefined m))
        = trace m @ [Debugbreak, DbgPrint ''[hv] vm-exit occurred. RIP=0x%zX.\<newline>''
                       [vmx_vmread VMCS_GUEST_RIP m]]"
      by (simp add: fatal_def)
    then show ?thesis
      unfolding t by (simp add: exit_reason_defs reason_def split: if_splits)
  qed
  from routed dflt c1 c2 c3 c4 c5 c6 c7 show ?thesis
    by blast
qed

text \<open>
  A CPUID exit on the concrete core runs \<open>emulate_cpuid\<close> and nothing else; a VMCALL exit
  runs the default branch.
\<close>

theorem handle_vm_exit_routing_witness:
  "basic_exit_reason (ucast (vmx_vmread VMCS_EXIT_REASON demo_cpuid_exit))
     = VMX_EXIT_REASON_EXECUTE_CPUID
   \<and> handle_vm_exit demo_handlers [] demo_cpuid_exit
       = emulate_cpuid demo_handlers [] demo_cpuid_exit
   \<and> fst (handle_vm_exit demo_handlers [] demo_cpuid_exit) = [2]
   \<and> basic_exit_reason (ucast (vmx_vmread VMCS_EXIT_REASON demo_vmcall_exit)) = 18
   \<and> handle_vm_exit demo_handlers [] demo_vmcall_exit
       = ([], demo_vmcall_exit\<lparr>trace := [Debugbreak,
               DbgPrint ''[hv] vm-exit occurred. RIP=0x%zX.\<newline>'' [0]]\<rparr>)"
  using handle_vm_exit_routing [of demo_cpuid_exit demo_handlers "[]"]
        handle_vm_exit_routing [of demo_vmcall_exit demo_handlers "[]"]
        demo_cpuid_reason demo_vmcall_reason
  by (simp add: exit_reason_defs demo_handlers_def demo_vmcall_exit_def demo_machine_def
      vmx_vmread_def vmx_vmwrite_def vmcs_field_defs)

section \<open>Host NMI sets NMI-window exiting\<close>

text \<open>
  C4. For a trap frame whose vector is the NMI vector, the processor-based controls after
  \<open>handle_host_interrupt\<close> have the NMI-window-exiting bit set, whatever they were
  before; for any other vector the call changes nothing, so the controls are unchanged.
\<close>

theorem handle_host_interrupt_nmi_window:
  "(vector frame = nmi \<longrightarrow>
      bit (read_ctrl_proc_based (handle_host_interrupt frame m))
          IA32_VMX_PROCBASED_CTLS_NMI_WINDOW_EXITING_BIT)
   \<and> (vector frame \<noteq> nmi \<longrightarrow>
      handle_host_interrupt frame m = m
      \<and> read_ctrl_proc_based (handle_host_interrupt frame m) = read_ctrl_proc_based m)"
  by (simp add: host_interrupt_on_nmi host_interrupt_on_other read_ctrl_proc_based_def
      vmx_vmread_vmwrite bit_set_bit_iff IA32_VMX_PROCBASED_CTLS_NMI_WINDOW_EXITING_BIT_def)

theorem handle_host_interrupt_nmi_window_witness:
  "vector \<lparr>vector = 2\<rparr> = nmi
   \<and> read_ctrl_proc_based demo_controls = 0x84006172
   \<and> bit (read_ctrl_proc_based (handle_host_interrupt \<lparr>vector = 2\<rparr> demo_controls)) 22
   \<and> bit (read_ctrl_proc_based (handle_host_interrupt \<lparr>vector = 2\<rparr> demo_machine)) 22
   \<and> vector \<lparr>vector = 14\<rparr> \<noteq> nmi
   \<and> handle_host_interrupt \<lparr>vector = 14\<rparr> demo_controls = demo_controls"
  using handle_host_interrupt_nmi_window [of "\<lparr>vector = 2\<rparr>" demo_controls]
        handle_host_interrupt_nmi_window [of "\<lparr>vector = 2\<rparr>" demo_machine]
        handle_host_interrupt_nmi_window [of "\<lparr>vector = 14\<rparr>" demo_controls]
  by (simp add: nmi_def IA32_VMX_PROCBASED_CTLS_NMI_WINDOW_EXITING_BIT_def demo_controls_def
      read_ctrl_proc_based_def vmx_vmread_vmwrite)

section \<open>Revision identifiers at activation\<close>

text \<open>
  C5. Whenever \<open>enter_vmx_operation\<close> issues VMXON, it is the first instruction it issues
  and the VMXON region then holds the revision identifier of the \<open>IA32_VMX_BASIC\<close>
  capability register and a zero reserved field. Whenever \<open>set_vmcs_pointer\<close> issues
  VMCLEAR or VMPTRLD, the VMCS region then holds that same revision identifier and a zero
  shadow indicator.
\<close>

theorem revision_stamped_before_activation:
  "(enter_vmx_operation e m = Inr (r, m') \<longrightarrow>
      (\<exists>rest. issued m m' = Vmxon (get_physical e (addr_vmxon e)) (vcpu_vmxon m') # rest)
      \<and> (Vmxon p reg \<in> set (issued m m') \<longrightarrow>
            vmxon.revision_id reg = vmcs_revision_id (readmsr e IA32_VMX_BASIC)
            \<and> must_be_zero reg = 0))
   \<and> (set_vmcs_pointer e m = Inr (r2, m2) \<longrightarrow>
      (\<exists>rest. issued m m2 = Vmclear (get_physical e (addr_vmcs e)) (vcpu_vmcs m2) # rest)
      \<and> (Vmclear p2 reg2 \<in> set (issued m m2) \<or> Vmptrld p2 reg2 \<in> set (issued m m2) \<longrightarrow>
            vmcs.revision_id reg2 = vmcs_revision_id (readmsr e IA32_VMX_BASIC)
            \<and> shadow_vmcs_indicator reg2 = 0))"
proof (intro conjI impI)
  assume a: "enter_vmx_operation e m = Inr (r, m')"
  then show "\<exists>rest. issued m m' = Vmxon (get_physical e (addr_vmxon e)) (vcpu_vmxon m') # rest"
    by (auto simp: enter_vmx_operation_cases Let_def split: if_splits)
  assume "Vmxon p reg \<in> set (issued m m')"
  with a show "vmxon.revision_id reg = vmcs_revision_id (readmsr e IA32_VMX_BASIC)"
    and "must_be_zero reg = 0"
    by (auto simp: enter_vmx_operation_cases Let_def split: if_splits)
next
  assume a: "set_vmcs_pointer e m = Inr (r2, m2)"
  then show "\<exists>rest. issued m m2 = Vmclear (get_physical e (addr_vmcs e)) (vcpu_vmcs m2) # rest"
    by (auto simp: set_vmcs_pointer_cases Let_def split: if_splits)
  assume "Vmclear p2 reg2 \<in> set (issued m m2) \<or> Vmptrld p2 reg2 \<in> set (issued m m2)"
  with a show "vmcs.revision_id reg2 = vmcs_revision_id (readmsr e IA32_VMX_BASIC)"
    and "shadow_vmcs_indicator reg2 = 0"
    by (auto simp: set_vmcs_pointer_cases Let_def split: if_splits)
qed

theorem revision_stamped_before_activation_witness:
  "enter_vmx_operation demo_platform demo_machine = Inr (True, demo_entered)
   \<and> Vmxon 0x100000 \<lparr>vmxon.revision_id = 4, must_be_zero = 0\<rparr>
       \<in> set (issued demo_machine demo_entered)
   \<and> vmcs_revision_id (readmsr demo_platform IA32_VMX_BASIC) = 4
   \<and> set_vmcs_pointer demo_platform demo_machine = Inr (True, demo_loaded)
   \<and> Vmptrld 0x101000 \<lparr>vmcs.revision_id = 4, shadow_vmcs_indicator = 0\<rparr>
       \<in> set (issued demo_machine demo_loaded)
   \<and> Vmclear 0x101000 \<lparr>vmcs.revision_id = 4, shadow_vmcs_indicator = 0\<rparr>
       \<in> set (issued demo_machine demo_loaded)"
  using revision_stamped_before_activation
          [of demo_platform demo_machine True demo_entered
              "0x100000" "\<lparr>vmxon.revision_id = 4, must_be_zero = 0\<rparr>"
              True demo_loaded
              "0x101000" "\<lparr>vmcs.revision_id = 4, shadow_vmcs_indicator = 0\<rparr>"]
        demo_enter demo_load demo_revision
  by (simp add: issued_def demo_entered_def demo_loaded_def demo_machine_def)

section \<open>Host stack pointer\<close>

text \<open>
  C6. The value \<open>write_vmcs_host_fields\<close> writes to the host-RSP field is the top of the
  host stack region (its base plus \<open>0x6000\<close>) with the low four bits cleared, minus 8;
  clearing the bits rounds the top down to a multiple of 16, and the value written is
  congruent to 8 modulo 16, for every base address (in 64-bit arithmetic).
\<close>

theorem host_rsp_misaligned:
  "vmx_vmread VMCS_HOST_RSP (write_vmcs_host_fields e m)
     = ((addr_host_stack e + host_stack_size) AND NOT 0xF) - 8
   \<and> host_stack_size = 0x6000
   \<and> unat ((addr_host_stack e + host_stack_size) AND NOT 0xF)
       = unat (addr_host_stack e + host_stack_size)
         - unat (addr_host_stack e + host_stack_size) mod 16
   \<and> unat (vmx_vmread VMCS_HOST_RSP (write_vmcs_host_fields e m)) mod 16 = 8"
proof (intro conjI)
  show w: "vmx_vmread VMCS_HOST_RSP (write_vmcs_host_fields e m)
     = ((addr_host_stack e + host_stack_size) AND NOT 0xF) - 8"
    by (simp only: host_rsp_written host_rsp_def)
  show "host_stack_size = 0x6000"
    by (rule host_stack_size_def)
  show "unat ((addr_host_stack e + host_stack_size) AND NOT 0xF)
       = unat (addr_host_stack e + host_stack_size)
         - unat (addr_host_stack e + host_stack_size) mod 16"
    by (rule align16_round_down)
  show "unat (vmx_vmread VMCS_HOST_RSP (write_vmcs_host_fields e m)) mod 16 = 8"
    unfolding w by (rule host_rsp_unat_mod)
qed

theorem host_rsp_misaligned_witness:
  "vmx_vmread VMCS_HOST_RSP (write_vmcs_host_fields demo_platform demo_machine)
     = 0xFFFF800000108FF8
   \<and> unat (0xFFFF800000108FF8 :: u64) mod 16 = 8"
  using host_rsp_misaligned [of demo_platform demo_machine]
  by (simp add: demo_platform_def host_stack_size_def)

section \<open>Guest segment selectors\<close>

text \<open>
  C7. After \<open>write_vmcs_guest_fields\<close> the guest selector fields hold the constants
  CS = \<open>0x10\<close>, SS = \<open>0x18\<close>, DS = ES = GS = \<open>0x2B\<close>, FS = \<open>0x53\<close>, TR = \<open>0x40\<close> and
  LDTR = 0, for every platform and every machine state, so whatever the live segment
  registers hold.
\<close>

theorem guest_selectors_hardcoded:
  "vmx_vmread VMCS_GUEST_CS_SELECTOR (write_vmcs_guest_fields e m) = 0x10
   \<and> vmx_vmread VMCS_GUEST_SS_SELECTOR (write_vmcs_guest_fields e m) = 0x18
   \<and> vmx_vmread VMCS_GUEST_DS_SELECTOR (write_vmcs_guest_fields e m) = 0x2B
   \<and> vmx_vmread VMCS_GUEST_ES_SELECTOR (write_vmcs_guest_fields e m) = 0x2B
   \<and> vmx_vmread VMCS_GUEST_FS_SELECTOR (write_vmcs_guest_fields e m) = 0x53
   \<and> vmx_vmread VMCS_GUEST_GS_SELECTOR (write_vmcs_guest_fields e m) = 0x2B
   \<and> vmx_vmread VMCS_GUEST_TR_SELECTOR (write_vmcs_guest_fields e m) = 0x40
   \<and> vmx_vmread VMCS_GUEST_LDTR_SELECTOR (write_vmcs_guest_fields e m) = 0x00"
  by (simp only: guest_selectors_written simp_thms)

text \<open>The live code-segment selector of the concrete core is \<open>0x33\<close>; the field gets \<open>0x10\<close>.\<close>

theorem guest_selectors_hardcoded_witness:
  "seg_cs (sregs demo_machine) = 0x33
   \<and> vmx_vmread VMCS_GUEST_CS_SELECTOR (write_vmcs_guest_fields demo_platform demo_machine)
       = 0x10
   \<and> vmx_vmread VMCS_GUEST_CS_SELECTOR
         (write_vmcs_guest_fields demo_platform
            (demo_machine\<lparr>sregs := (sregs demo_machine)\<lparr>seg_cs := 0x10\<rparr>\<rparr>))
       = 0x10"
  using guest_selectors_hardcoded [of demo_platform demo_machine]
        guest_selectors_hardcoded
          [of demo_platform "demo_machine\<lparr>sregs := (sregs demo_machine)\<lparr>seg_cs := 0x10\<rparr>\<rparr>"]
  by (simp add: demo_machine_def)

section \<open>Frame of the interrupt bridge\<close>

text \<open>
  C8. On the NMI vector \<open>handle_host_interrupt\<close> changes only the NMI-window-exiting bit
  of the processor-based controls: every other bit of the control word is as before (the
  new word is the old one with that bit ORed in), and every other VMCS field is as before.
\<close>

theorem handle_host_interrupt_frame:
  "vector frame = nmi \<Longrightarrow>
     (\<forall>n. n \<noteq> IA32_VMX_PROCBASED_CTLS_NMI_WINDOW_EXITING_BIT \<longrightarrow>
        bit (read_ctrl_proc_based (handle_host_interrupt frame m)) n
          = bit (read_ctrl_proc_based m) n)
     \<and> read_ctrl_proc_based (handle_host_interrupt frame m)
         = read_ctrl_proc_based m OR push_bit IA32_VMX_PROCBASED_CTLS_NMI_WINDOW_EXITING_BIT 1
     \<and> (\<forall>field. field \<noteq> VMCS_CTRL_PROCESSOR_BASED_VM_EXECUTION_CONTROLS \<longrightarrow>
          vmx_vmread field (handle_host_interrupt frame m) = vmx_vmread field m)"
proof (intro conjI allI impI)
  assume v: "vector frame = nmi"
  note h = host_interrupt_on_nmi [OF v, of m]
  show "read_ctrl_proc_based (handle_host_interrupt frame m)
         = read_ctrl_proc_based m OR push_bit IA32_VMX_PROCBASED_CTLS_NMI_WINDOW_EXITING_BIT 1"
    by (simp add: h read_ctrl_proc_based_def vmx_vmread_vmwrite set_bit_eq_or)
  fix n
  assume "n \<noteq> IA32_VMX_PROCBASED_CTLS_NMI_WINDOW_EXITING_BIT"
  then show "bit (read_ctrl_proc_based (handle_host_interrupt frame m)) n
          = bit (read_ctrl_proc_based m) n"
    by (simp add: h read_ctrl_proc_based_def vmx_vmread_vmwrite bit_set_bit_iff)
next
  fix field
  assume v: "vector frame = nmi"
    and "field \<noteq> VMCS_CTRL_PROCESSOR_BASED_VM_EXECUTION_CONTROLS"
  then show "vmx_vmread field (handle_host_interrupt frame m) = vmx_vmread field m"
    by (simp add: host_interrupt_on_nmi [OF v] vmx_vmread_vmwrite)
qed

theorem handle_host_interrupt_frame_witness:
  "vector \<lparr>vector = 2\<rparr> = nmi
   \<and> read_ctrl_proc_based demo_controls = 0x84006172
   \<and> read_ctrl_proc_based (handle_host_interrupt \<lparr>vector = 2\<rparr> demo_controls) = 0x84406172
   \<and> vmx_vmread VMCS_GUEST_RIP (handle_host_interrupt \<lparr>vector = 2\<rparr> demo_controls)
       = vmx_vmread VMCS_GUEST_RIP demo_controls"
  using handle_host_interrupt_frame [of "\<lparr>vector = 2\<rparr>" demo_controls]
  by (simp add: nmi_def IA32_VMX_PROCBASED_CTLS_NMI_WINDOW_EXITING_BIT_def demo_controls_def
      read_ctrl_proc_based_def vmx_vmread_vmwrite vmcs_field_defs)

section \<open>Frame of the default exit branch\<close>

text \<open>
  C9. When the basic exit reason is none of the six routed ones, \<open>handle_vm_exit\<close>
  returns the guest context it was given, for every context, and the machine changes only
  by the two events of the branch: the breakpoint and the message with the guest RIP.
\<close>

theorem handle_vm_exit_default_keeps_context:
  assumes "basic_exit_reason (ucast (vmx_vmread VMCS_EXIT_REASON m)) \<notin>
             {VMX_EXIT_REASON_MOV_CR, VMX_EXIT_REASON_EXECUTE_CPUID,
              VMX_EXIT_REASON_EXECUTE_RDMSR, VMX_EXIT_REASON_EXECUTE_WRMSR,
              VMX_EXIT_REASON_EXCEPTION_OR_NMI, VMX_EXIT_REASON_NMI_WINDOW}"
  shows "fst (handle_vm_exit h ctx m) = ctx
       \<and> snd (handle_vm_exit h ctx m) =
           m\<lparr>trace := trace m @ [Debugbreak,
                DbgPrint ''[hv] vm-exit occurred. RIP=0x%zX.\<newline>''
                  [vmx_vmread VMCS_GUEST_RIP m]]\<rparr>"
  by (simp add: vm_exit_default_branch [OF assms])

theorem handle_vm_exit_default_keeps_context_witness:
  "basic_exit_reason (ucast (vmx_vmread VMCS_EXIT_REASON demo_vmcall_exit)) = 18
   \<and> fst (handle_vm_exit demo_handlers [7, 8] demo_vmcall_exit) = [7, 8]
   \<and> issued demo_vmcall_exit (snd (handle_vm_exit demo_handlers [7, 8] demo_vmcall_exit))
       = [Debugbreak, DbgPrint ''[hv] vm-exit occurred. RIP=0x%zX.\<newline>'' [0]]"
  using handle_vm_exit_default_keeps_context [of demo_vmcall_exit demo_handlers "[7, 8]"]
        demo_vmcall_reason
  by (simp add: exit_reason_defs demo_vmcall_exit_def vmx_vmread_vmwrite vmcs_field_defs
      demo_machine_def vmx_vmread_def vmx_vmwrite_def)

section \<open>Failure of the lifecycle step\<close>

text \<open>
  C10. When \<open>set_vmcs_pointer\<close> returns false, which happens when VMCLEAR or VMPTRLD
  reports failure, the VMCS region has nevertheless been stamped: it holds the hardware's
  revision identifier and a zero shadow indicator, it was so already when VMCLEAR was
  issued, and it differs from the region at entry whenever one of the two fields held
  another value.
\<close>

theorem set_vmcs_pointer_not_atomic:
  assumes "set_vmcs_pointer e m = Inr (False, m')"
  shows "vmcs.revision_id (vcpu_vmcs m') = vmcs_revision_id (readmsr e IA32_VMX_BASIC)
         \<and> shadow_vmcs_indicator (vcpu_vmcs m') = 0
         \<and> (vmclear_ok e \<longrightarrow> \<not> vmptrld_ok e)
         \<and> (\<exists>rest. issued m m' = Vmclear (get_physical e (addr_vmcs e)) (vcpu_vmcs m') # rest)
         \<and> (vcpu_vmcs m' \<noteq> vcpu_vmcs m \<longleftrightarrow>
              vmcs.revision_id (vcpu_vmcs m) \<noteq> vmcs_revision_id (readmsr e IA32_VMX_BASIC)
              \<or> shadow_vmcs_indicator (vcpu_vmcs m) \<noteq> 0)"
  using assms
  by (cases "vcpu_vmcs m") (auto simp: set_vmcs_pointer_cases Let_def split: if_splits)

theorem set_vmcs_pointer_not_atomic_witness:
  "set_vmcs_pointer (demo_platform\<lparr>vmclear_ok := False\<rparr>) demo_machine
     = Inr (False, demo_clear_failed)
   \<and> vcpu_vmcs demo_machine = \<lparr>vmcs.revision_id = 0x7F, shadow_vmcs_indicator = 1\<rparr>
   \<and> vcpu_vmcs demo_clear_failed = \<lparr>vmcs.revision_id = 4, shadow_vmcs_indicator = 0\<rparr>
   \<and> vcpu_vmcs demo_clear_failed \<noteq> vcpu_vmcs demo_machine"
  using set_vmcs_pointer_not_atomic
          [of "demo_platform\<lparr>vmclear_ok := False\<rparr>" demo_machine demo_clear_failed]
        demo_clear_fails
  by (simp add: demo_clear_failed_def demo_machine_def)

end
